theory Spec2Isabelle
  imports Main
begin

section \<open>Errors\<close>

text \<open>
  Go errors as values. \<open>New msg\<close> is \<open>errors.New(msg)\<close> or a \<open>fmt.Errorf\<close> without \<open>%w\<close>
  (the message with its operands formatted in), \<open>Wrap ctx e\<close> is
  \<open>fmt.Errorf("ctx: %w", e)\<close>, \<open>Joined es\<close> is an error that wraps several errors, and
  \<open>Pgx msg\<close> is an error reported by the database driver.
\<close>

datatype error =
    New string
  | Wrap string error
  | Joined "error list"
  | Pgx string

section \<open>OAuth state: \<open>GetAuthURL\<close>, \<open>parseStateForGuestID\<close>, \<open>findSubstring\<close>\<close>

text \<open>
  Go strings are byte sequences; they are modelled as \<^typ>\<open>string\<close>, whose characters
  are bytes. Go's \<open>int\<close> is a 64-bit signed integer; it is modelled as \<^typ>\<open>int\<close>, and
  the range is written out where the code depends on it (the overflow check of the
  scanner).
\<close>

subsection \<open>Decimal printing: the verb \<open>%d\<close> of \<open>fmt.Sprintf\<close>\<close>

definition digit_char :: "nat \<Rightarrow> char" where
  "digit_char d = char_of (48 + d)"

fun fmt_uint :: "nat \<Rightarrow> string" where
  "fmt_uint n = (if n < 10 then [digit_char n] else fmt_uint (n div 10) @ [digit_char (n mod 10)])"

declare fmt_uint.simps [simp del]

definition Sprintf_d :: "int \<Rightarrow> string" where
  "Sprintf_d n = (if n < 0 then CHR ''-'' # fmt_uint (nat (- n)) else fmt_uint (nat n))"

subsection \<open>Decimal scanning: \<open>fmt.Sscanf(str, "%d", &n)\<close>\<close>

text \<open>
  The scanner of Go's \<open>fmt\<close> package, for the format \<open>%d\<close> and an \<open>int\<close> operand:
  \<open>SkipSpace\<close> drops leading white space (a newline is an error for \<open>Sscanf\<close>, also after
  a carriage return), an optional sign is accepted, then at least one decimal digit and
  all the digits that follow; the rest of the input is left unread. The token is
  converted by \<open>strconv.ParseInt(tok, 10, 64)\<close>, which fails outside the 64-bit range.
  White space is read rune by rune; the white-space runes beyond ASCII are listed by
  their UTF-8 encodings.
\<close>

definition space_runes :: "nat list list" where
  "space_runes =
    [[0x09], [0x0B], [0x0C], [0x0D], [0x20],
     [0xC2, 0x85], [0xC2, 0xA0],
     [0xE1, 0x9A, 0x80],
     [0xE2, 0x80, 0x80], [0xE2, 0x80, 0x81], [0xE2, 0x80, 0x82], [0xE2, 0x80, 0x83],
     [0xE2, 0x80, 0x84], [0xE2, 0x80, 0x85], [0xE2, 0x80, 0x86], [0xE2, 0x80, 0x87],
     [0xE2, 0x80, 0x88], [0xE2, 0x80, 0x89], [0xE2, 0x80, 0x8A],
     [0xE2, 0x80, 0xA8], [0xE2, 0x80, 0xA9], [0xE2, 0x80, 0xAF],
     [0xE2, 0x81, 0x9F],
     [0xE3, 0x80, 0x80]]"

text \<open>The length of the white-space rune that \<open>s\<close> starts with, if it starts with one.\<close>

definition space_width :: "string \<Rightarrow> nat option" where
  "space_width s =
     map_option length (find (\<lambda>r. map of_char (take (length r) s) = r) space_runes)"

text \<open>
  \<open>SkipSpace\<close>: \<open>None\<close> is the error "unexpected newline". The recursion is on a bound for
  the number of runes left (the length of the input), since each round consumes at least
  one byte.
\<close>

fun SkipSpace_loop :: "nat \<Rightarrow> string \<Rightarrow> string option" where
  "SkipSpace_loop 0 s = Some s"
| "SkipSpace_loop (Suc k) s =
     (case s of
        [] \<Rightarrow> Some []
      | c # cs \<Rightarrow>
          if of_char c = (0x0D::nat) \<and> map of_char (take 1 cs) = [0x0A::nat]
          then SkipSpace_loop k cs
          else if of_char c = (0x0A::nat) then None
          else (case space_width s of
                  None \<Rightarrow> Some s
                | Some w \<Rightarrow> SkipSpace_loop k (drop w s)))"

definition SkipSpace :: "string \<Rightarrow> string option" where
  "SkipSpace s = SkipSpace_loop (length s) s"

text \<open>The decimal digits \<open>"0123456789"\<close> are the bytes \<open>0x30\<close> to \<open>0x39\<close>.\<close>

definition is_digit :: "char \<Rightarrow> bool" where
  "is_digit c \<longleftrightarrow> 48 \<le> (of_char c :: nat) \<and> (of_char c :: nat) \<le> 57"

definition digit_val :: "char \<Rightarrow> nat" where
  "digit_val c = of_char c - 48"

definition digits_val :: "string \<Rightarrow> nat" where
  "digits_val ds = foldl (\<lambda>acc c. 10 * acc + digit_val c) 0 ds"

definition int_min :: int where "int_min = - (2 ^ 63)"
definition int_max :: int where "int_max = 2 ^ 63 - 1"

text \<open>\<open>scanInt\<close>: sign, digits, conversion with the range check; \<open>None\<close> is any scan error.\<close>

definition scanInt :: "string \<Rightarrow> int option" where
  "scanInt s =
     (case SkipSpace s of
        None \<Rightarrow> None
      | Some r \<Rightarrow>
          (let neg = (take 1 r = ''-'');
               r1 = (if take 1 r = ''+'' \<or> take 1 r = ''-'' then drop 1 r else r);
               ds = takeWhile is_digit r1;
               v = (if neg then - int (digits_val ds) else int (digits_val ds))
           in if ds = [] then None
              else if v < int_min \<or> int_max < v then None
              else Some v))"

definition Sscanf_d :: "string \<Rightarrow> int option" where
  "Sscanf_d s = (case SkipSpace s of None \<Rightarrow> None | Some r \<Rightarrow> scanInt r)"

subsection \<open>\<open>findSubstring\<close>\<close>

text \<open>
  \<^verbatim>\<open>for i := len(s) - len(substr); i >= 0; i-- { if s[i:i+len(substr)] == substr { return i } }; return -1\<close>

  \<open>findSubstring_loop s substr k\<close> runs the loop with \<open>k\<close> positions left to try, that is
  from \<open>i = k - 1\<close> down to \<open>0\<close>.
\<close>

fun findSubstring_loop :: "string \<Rightarrow> string \<Rightarrow> nat \<Rightarrow> int" where
  "findSubstring_loop s substr 0 = - 1"
| "findSubstring_loop s substr (Suc i) =
     (if take (length substr) (drop i s) = substr then int i
      else findSubstring_loop s substr i)"

definition findSubstring :: "string \<Rightarrow> string \<Rightarrow> int" where
  "findSubstring s substr =
     (if length s < length substr then - 1
      else findSubstring_loop s substr (Suc (length s - length substr)))"

subsection \<open>\<open>parseStateForGuestID\<close> and the state built by \<open>GetAuthURL\<close>\<close>

text \<open>
  The variable \<open>idx\<close> of the source is computed and never used for the result; it is
  left out.
\<close>

definition parseStateForGuestID :: "string \<Rightarrow> int" where
  "parseStateForGuestID state =
     (if state = [] then 0
      else let guestPrefix = ''guest:'';
               guestIdx = findSubstring state guestPrefix
           in if guestIdx = - 1 then 0
              else (case Sscanf_d (drop (nat guestIdx + length guestPrefix) state) of
                      None \<Rightarrow> 0
                    | Some guestID \<Rightarrow> guestID))"

text \<open>
  \<open>GetAuthURL\<close>. The URL is built by \<open>config.AuthCodeURL(state, oauth2.AccessTypeOffline)\<close> of
  the \<open>oauth2\<close> library; it is represented by the configuration and the state it is built
  from.
\<close>

record oauth2_Config =
  ClientID :: string
  ClientSecret :: string
  RedirectURL :: string
  Scopes :: "string list"

record OAuthService =
  googleConfig :: oauth2_Config
  yandexConfig :: oauth2_Config
  frontendURL :: string

datatype auth_url = AuthCodeURL oauth2_Config string

definition auth_state :: "string \<Rightarrow> int option \<Rightarrow> string" where
  "auth_state provider guestUserID =
     (case guestUserID of
        Some g \<Rightarrow> provider @ '':guest:'' @ Sprintf_d g
      | None \<Rightarrow> provider @ '':guest:0'')"

definition GetAuthURL :: "OAuthService \<Rightarrow> string \<Rightarrow> int option \<Rightarrow> error + auth_url" where
  "GetAuthURL s provider guestUserID =
     (if provider = ''google'' then
        if ClientID (googleConfig s) = [] \<or> ClientSecret (googleConfig s) = []
        then Inl (New ''Google OAuth credentials not configured. Please set GOOGLE_CLIENT_ID and GOOGLE_CLIENT_SECRET environment variables'')
        else Inr (AuthCodeURL (googleConfig s) (auth_state provider guestUserID))
      else if provider = ''yandex'' then
        if ClientID (yandexConfig s) = [] \<or> ClientSecret (yandexConfig s) = []
        then Inl (New ''Yandex OAuth credentials not configured. Please set YANDEX_CLIENT_ID and YANDEX_CLIENT_SECRET environment variables'')
        else Inr (AuthCodeURL (yandexConfig s) (auth_state provider guestUserID))
      else Inl (New (''unsupported OAuth provider: '' @ provider)))"


section \<open>Time\<close>

text \<open>
  A \<open>time.Time\<close> is an instant, counted in nanoseconds since the Unix epoch; a
  \<open>time.Duration\<close> is a number of nanoseconds. \<open>Truncate t d\<close> is \<open>t.Truncate(d)\<close>: \<open>t\<close>
  rounded down to a multiple of \<open>d\<close>. \<open>zero_time\<close> is the zero value of \<open>time.Time\<close>
  (January 1, year 1).
\<close>

type_synonym time = int

definition Second :: int where "Second = 1000000000"
definition Hour :: int where "Hour = 3600 * Second"

definition Truncate :: "time \<Rightarrow> int \<Rightarrow> time" where
  "Truncate t d = t - t mod d"

definition zero_time :: time where
  "zero_time = - 62135596800 * Second"

section \<open>Data model\<close>

text \<open>
  \<open>models.User\<close>. A Go \<open>*string\<close> is a \<^typ>\<open>string option\<close> (\<open>nil\<close> is \<open>None\<close>). The
  player-state fields (\<open>LastTrackID\<close>, \<open>LastPosition\<close>, \<open>VolumePreference\<close>, \<open>LastTrack\<close>)
  are neither read nor written by the operations modelled here and are left out. The
  declaration of the struct names the avatar field \<open>AvatarURL\<close>, the repository reads and
  writes a field \<open>AvatarKey\<close> (the column \<open>avatar_key\<close>); the record has both.
\<close>

record User =
  ID :: int
  Email :: "string option"
  Name :: "string option"
  AvatarURL :: "string option"
  AvatarKey :: "string option"
  PasswordHash :: "string option"
  Provider :: "string option"
  ExternalID :: "string option"
  Role :: string
  LastLoginAt :: "time option"
  CreatedAt :: time

text \<open>The zero value of the struct, from which a composite literal starts.\<close>

definition User_zero :: User where
  "User_zero = \<lparr>ID = 0, Email = None, Name = None, AvatarURL = None, AvatarKey = None,
     PasswordHash = None, Provider = None, ExternalID = None, Role = [], LastLoginAt = None,
     CreatedAt = zero_time\<rparr>"

record RegisterRequest =
  reg_Email :: string
  reg_Password :: string

record LoginRequest =
  login_Email :: string
  login_Password :: string

record AuthResponse =
  Token :: string
  AuthUser :: User

record OAuthUserInfo =
  info_Email :: string
  info_Name :: string
  info_AvatarURL :: string
  info_ExternalID :: string
  info_Provider :: string

text \<open>\<open>service.Claims\<close>: the three fields of the service and the registered claims it sets.\<close>

record Claims =
  UserID :: int
  claims_Email :: string
  claims_Role :: string
  ExpiresAt :: "time option"
  NotBefore :: "time option"
  IssuedAt :: "time option"

text \<open>The header of a token: the entries \<open>typ\<close> and \<open>alg\<close>, when they are strings.\<close>

record Header =
  header_typ :: "string option"
  header_alg :: "string option"

section \<open>External libraries\<close>

text \<open>
  The functions of the libraries whose results the code depends on, and which are not
  computed here, are parameters of the model:
  \<^item> \<open>bcrypt.GenerateFromPassword\<close> (with the salt it draws) and
    \<open>bcrypt.CompareHashAndPassword\<close> (\<open>None\<close> is the \<open>nil\<close> error);
  \<^item> the message authentication code of a signing method of the HMAC family, by the
    name of the method, the key and the message;
  \<^item> the JSON encoding and decoding of a token header and of the claims;
  \<^item> the exchange of an authorization code at a provider and the request of the user
    information (\<open>config.Exchange\<close>, \<open>getUserInfo\<close>).
\<close>

record libs =
  GenerateFromPassword :: "string \<Rightarrow> string \<Rightarrow> error + string"
  CompareHashAndPassword :: "string \<Rightarrow> string \<Rightarrow> error option"
  hmac :: "string \<Rightarrow> string \<Rightarrow> string \<Rightarrow> string"
  Marshal_header :: "Header \<Rightarrow> error + string"
  Unmarshal_header :: "string \<Rightarrow> error + Header"
  Marshal_claims :: "Claims \<Rightarrow> error + string"
  Unmarshal_claims :: "string \<Rightarrow> error + Claims"
  Exchange :: "oauth2_Config \<Rightarrow> string \<Rightarrow> error + string"
  getUserInfo :: "string \<Rightarrow> string \<Rightarrow> error + OAuthUserInfo"

section \<open>The world: user table, clock, driver failures, entropy\<close>

text \<open>
  The state the operations run in:
  \<^item> \<open>users\<close> are the rows of the table \<open>users\<close>, \<open>next_id\<close> is the next value of the
    sequence of the column \<open>id\<close>;
  \<^item> \<open>clock\<close> gives the successive readings of the clock and \<open>reads\<close> counts the readings
    made so far, so that each \<open>time.Now()\<close> is a reading of its own;
  \<^item> \<open>faults\<close> tells, for each call of the database driver in turn, whether the call fails
    (connection lost, context cancelled, value rejected by the server), and \<open>calls\<close>
    counts the calls made so far;
  \<^item> \<open>entropy\<close> gives the successive random salts, \<open>draws\<close> counts those drawn.
\<close>

record world =
  users :: "User list"
  next_id :: int
  clock :: "nat \<Rightarrow> time"
  reads :: nat
  faults :: "nat \<Rightarrow> bool"
  calls :: nat
  entropy :: "nat \<Rightarrow> string"
  draws :: nat

definition Now :: "world \<Rightarrow> time \<times> world" where
  "Now w = (clock w (reads w), w\<lparr>reads := Suc (reads w)\<rparr>)"

definition driver_call :: "world \<Rightarrow> bool \<times> world" where
  "driver_call w = (faults w (calls w), w\<lparr>calls := Suc (calls w)\<rparr>)"

definition draw_salt :: "world \<Rightarrow> string \<times> world" where
  "draw_salt w = (entropy w (draws w), w\<lparr>draws := Suc (draws w)\<rparr>)"

section \<open>\<open>UserRepository\<close>\<close>

text \<open>
  The queries of the repository on the table of the migrations:
  \<open>email VARCHAR(255) UNIQUE\<close>, \<open>CONSTRAINT check_valid_role CHECK (role IN ('user',
  'admin', 'guest'))\<close> and the unique index \<open>idx_users_provider_external_id\<close> on
  \<open>(provider, external_id)\<close> where both are not null. A statement that violates one of
  them fails with an error of the driver, as does a call on which the driver fails; the
  repository maps \<open>pgx.ErrNoRows\<close> to "user not found".
\<close>

definition driver_error :: error where
  "driver_error = Pgx ''driver error''"

definition constraint_error :: error where
  "constraint_error = Pgx ''constraint violation''"

definition valid_role :: "string \<Rightarrow> bool" where
  "valid_role r \<longleftrightarrow> r = ''user'' \<or> r = ''admin'' \<or> r = ''guest''"

text \<open>Does another row (not the row \<open>self\<close>) hold this email, or this provider identity?\<close>

definition email_taken :: "User list \<Rightarrow> int option \<Rightarrow> string option \<Rightarrow> bool" where
  "email_taken rows self e =
     (case e of
        None \<Rightarrow> False
      | Some a \<Rightarrow> list_ex (\<lambda>u. Some (ID u) \<noteq> self \<and> Email u = Some a) rows)"

definition identity_taken ::
  "User list \<Rightarrow> int option \<Rightarrow> string option \<Rightarrow> string option \<Rightarrow> bool" where
  "identity_taken rows self p x =
     (case (p, x) of
        (Some a, Some b) \<Rightarrow>
          list_ex (\<lambda>u. Some (ID u) \<noteq> self \<and> Provider u = Some a \<and> ExternalID u = Some b) rows
      | _ \<Rightarrow> False)"

definition update_row :: "int \<Rightarrow> (User \<Rightarrow> User) \<Rightarrow> User list \<Rightarrow> User list" where
  "update_row i f rows = map (\<lambda>u. if ID u = i then f u else u) rows"

definition CreateUser :: "world \<Rightarrow> User \<Rightarrow> (error + User) \<times> world" where
  "CreateUser w user =
     (case driver_call w of
        (True, w1) \<Rightarrow> (Inl (Wrap ''failed to create user'' driver_error), w1)
      | (False, w1) \<Rightarrow>
          if \<not> valid_role (Role user) \<or> email_taken (users w1) None (Email user)
             \<or> identity_taken (users w1) None (Provider user) (ExternalID user)
          then (Inl (Wrap ''failed to create user'' constraint_error),
                w1\<lparr>next_id := next_id w1 + 1\<rparr>)
          else (case Now w1 of
                  (t, w2) \<Rightarrow>
                    (let row = user\<lparr>ID := next_id w2, LastLoginAt := None, CreatedAt := t\<rparr>
                     in (Inr row,
                         w2\<lparr>users := users w2 @ [row], next_id := next_id w2 + 1\<rparr>))))"

definition GetUserByEmail :: "world \<Rightarrow> string \<Rightarrow> (error + User) \<times> world" where
  "GetUserByEmail w email =
     (case driver_call w of
        (True, w1) \<Rightarrow> (Inl (Wrap ''failed to get user by email'' driver_error), w1)
      | (False, w1) \<Rightarrow>
          (case find (\<lambda>u. Email u = Some email) (users w1) of
             None \<Rightarrow> (Inl (New ''user not found''), w1)
           | Some u \<Rightarrow> (Inr u, w1)))"

definition GetUserByID :: "world \<Rightarrow> int \<Rightarrow> (error + User) \<times> world" where
  "GetUserByID w i =
     (case driver_call w of
        (True, w1) \<Rightarrow> (Inl (Wrap ''failed to get user by ID'' driver_error), w1)
      | (False, w1) \<Rightarrow>
          (case find (\<lambda>u. ID u = i) (users w1) of
             None \<Rightarrow> (Inl (New ''user not found''), w1)
           | Some u \<Rightarrow> (Inr u, w1)))"

text \<open>
  \<open>GetUserWithLastTrack\<close>: the row of the user, joined with the track last played; the
  track belongs to the player state and is left out.
\<close>

definition GetUserWithLastTrack :: "world \<Rightarrow> int \<Rightarrow> (error + User) \<times> world" where
  "GetUserWithLastTrack w i =
     (case driver_call w of
        (True, w1) \<Rightarrow> (Inl (Wrap ''failed to get user with last track'' driver_error), w1)
      | (False, w1) \<Rightarrow>
          (case find (\<lambda>u. ID u = i) (users w1) of
             None \<Rightarrow> (Inl (New ''user not found''), w1)
           | Some u \<Rightarrow> (Inr u, w1)))"


definition UpdateLastLogin :: "world \<Rightarrow> int \<Rightarrow> time \<Rightarrow> error option \<times> world" where
  "UpdateLastLogin w userID lastLogin =
     (case driver_call w of
        (True, w1) \<Rightarrow> (Some (Wrap ''failed to update last login'' driver_error), w1)
      | (False, w1) \<Rightarrow>
          (case find (\<lambda>u. ID u = userID) (users w1) of
             None \<Rightarrow> (Some (New ''user not found''), w1)
           | Some _ \<Rightarrow>
               (None,
                w1\<lparr>users := update_row userID (\<lambda>u. u\<lparr>LastLoginAt := Some lastLogin\<rparr>)
                   (users w1)\<rparr>)))"


section \<open>\<open>strings.Split\<close> on a one-byte separator\<close>

fun Split :: "string \<Rightarrow> char \<Rightarrow> string list" where
  "Split [] sep = [[]]"
| "Split (c # cs) sep =
     (if c = sep then [] # Split cs sep
      else (case Split cs sep of
              [] \<Rightarrow> [[c]]
            | p # ps \<Rightarrow> (c # p) # ps))"

section \<open>\<open>base64.RawURLEncoding\<close>\<close>

text \<open>
  The URL alphabet, \<open>A\<close> to \<open>Z\<close>, \<open>a\<close> to \<open>z\<close>, \<open>0\<close> to \<open>9\<close>, \<open>-\<close> and \<open>_\<close>, without padding.
  Three bytes \<open>x y z\<close> are the four 6-bit values \<open>x >> 2\<close>, \<open>(x & 3) << 4 | y >> 4\<close>,
  \<open>(y & 15) << 2 | z >> 6\<close> and \<open>z & 63\<close>; shifts and masks are written as divisions.
  The decoder of Go skips carriage returns and newlines, rejects any other byte outside the
  alphabet and a final group of one character, and, not being \<open>Strict\<close>, ignores the
  bits of a final group of two or three characters that belong to no byte.
\<close>

definition enc6 :: "nat \<Rightarrow> char" where
  "enc6 k =
     (if k < 26 then char_of (65 + k)
      else if k < 52 then char_of (71 + k)
      else if k < 62 then char_of (k - 4)
      else if k = 62 then CHR ''-''
      else CHR ''_'')"

definition dec6 :: "char \<Rightarrow> nat option" where
  "dec6 c =
     (let n = (of_char c :: nat)
      in if 65 \<le> n \<and> n \<le> 90 then Some (n - 65)
         else if 97 \<le> n \<and> n \<le> 122 then Some (n - 71)
         else if 48 \<le> n \<and> n \<le> 57 then Some (n + 4)
         else if n = 45 then Some 62
         else if n = 95 then Some 63
         else None)"

fun EncodeToString :: "string \<Rightarrow> string" where
  "EncodeToString (a # b # c # rest) =
     (let x = (of_char a :: nat); y = (of_char b :: nat); z = (of_char c :: nat)
      in enc6 (x div 4) # enc6 ((x mod 4) * 16 + y div 16) # enc6 ((y mod 16) * 4 + z div 64)
         # enc6 (z mod 64) # EncodeToString rest)"
| "EncodeToString [a, b] =
     (let x = (of_char a :: nat); y = (of_char b :: nat)
      in [enc6 (x div 4), enc6 ((x mod 4) * 16 + y div 16), enc6 ((y mod 16) * 4)])"
| "EncodeToString [a] =
     (let x = (of_char a :: nat) in [enc6 (x div 4), enc6 ((x mod 4) * 16)])"
| "EncodeToString [] = []"

fun decode_groups :: "nat list \<Rightarrow> string option" where
  "decode_groups (s0 # s1 # s2 # s3 # rest) =
     (case decode_groups rest of
        None \<Rightarrow> None
      | Some bs \<Rightarrow>
          Some (char_of (s0 * 4 + s1 div 16) # char_of ((s1 mod 16) * 16 + s2 div 4)
                # char_of ((s2 mod 4) * 64 + s3) # bs))"
| "decode_groups [s0, s1, s2] =
     Some [char_of (s0 * 4 + s1 div 16), char_of ((s1 mod 16) * 16 + s2 div 4)]"
| "decode_groups [s0, s1] = Some [char_of (s0 * 4 + s1 div 16)]"
| "decode_groups [s0] = None"
| "decode_groups [] = Some []"

definition is_newline :: "char \<Rightarrow> bool" where
  "is_newline c \<longleftrightarrow> of_char c = (10::nat) \<or> of_char c = (13::nat)"

definition DecodeString :: "string \<Rightarrow> string option" where
  "DecodeString s =
     (let cs = filter (\<lambda>c. \<not> is_newline c) s
      in if list_all (\<lambda>c. dec6 c \<noteq> None) cs
         then decode_groups (map (\<lambda>c. the (dec6 c)) cs)
         else None)"

section \<open>The token library: \<open>golang-jwt/jwt/v5\<close>\<close>

text \<open>
  The parser and the validator of the token library, with their default options, in the
  order of their checks. The errors are the errors of the library, with their messages.
\<close>

definition ErrTokenMalformed :: error where "ErrTokenMalformed = New ''token is malformed''"
definition ErrTokenUnverifiable :: error where "ErrTokenUnverifiable = New ''token is unverifiable''"
definition ErrTokenSignatureInvalid :: error where
  "ErrTokenSignatureInvalid = New ''token signature is invalid''"
definition ErrTokenInvalidClaims :: error where
  "ErrTokenInvalidClaims = New ''token has invalid claims''"
definition ErrTokenExpired :: error where "ErrTokenExpired = New ''token is expired''"
definition ErrTokenNotValidYet :: error where "ErrTokenNotValidYet = New ''token is not valid yet''"
definition ErrSignatureInvalid :: error where "ErrSignatureInvalid = New ''signature is invalid''"
definition ErrInvalidKeyType :: error where "ErrInvalidKeyType = New ''key is of invalid type''"

definition newError :: "string \<Rightarrow> error \<Rightarrow> error list \<Rightarrow> error" where
  "newError message err others =
     (if message = [] then Joined (err # others) else Joined (err # New message # others))"

text \<open>The signing methods the library registers: the HMAC family, and the others.\<close>

definition hmac_methods :: "string list" where
  "hmac_methods = [''HS256'', ''HS384'', ''HS512'']"

definition other_methods :: "string list" where
  "other_methods = [''RS256'', ''RS384'', ''RS512'', ''ES256'', ''ES384'', ''ES512'',
     ''PS256'', ''PS384'', ''PS512'', ''EdDSA'', ''none'']"

text \<open>\<open>jwt.NewNumericDate\<close> truncates the instant to \<open>TimePrecision\<close>, one second.\<close>

definition NewNumericDate :: "time \<Rightarrow> time" where
  "NewNumericDate t = Truncate t Second"

text \<open>
  \<open>token.SignedString(key)\<close> for a token made by
  \<open>jwt.NewWithClaims(jwt.SigningMethodHS256, claims)\<close>.
\<close>

definition SignedString :: "libs \<Rightarrow> Claims \<Rightarrow> string \<Rightarrow> error + string" where
  "SignedString L claims key =
     (case Marshal_header L \<lparr>header_typ = Some ''JWT'', header_alg = Some ''HS256''\<rparr> of
        Inl e \<Rightarrow> Inl e
      | Inr h \<Rightarrow>
          (case Marshal_claims L claims of
             Inl e \<Rightarrow> Inl e
           | Inr c \<Rightarrow>
               (let sstr = EncodeToString h @ ''.'' @ EncodeToString c
                in Inr (sstr @ ''.'' @ EncodeToString (hmac L ''HS256'' key sstr)))))"

text \<open>
  The token that \<open>SignedString\<close> returns, in terms of the encodings \<open>h\<close> of the header and
  \<open>j\<close> of the claims.
\<close>

definition signed_token :: "libs \<Rightarrow> string \<Rightarrow> string \<Rightarrow> string \<Rightarrow> string" where
  "signed_token L h j key =
     (EncodeToString h @ ''.'' @ EncodeToString j) @ ''.''
       @ EncodeToString (hmac L ''HS256'' key (EncodeToString h @ ''.'' @ EncodeToString j))"

text \<open>\<open>parser.ParseUnverified\<close>: the segments, the header, the claims, the signing method.\<close>

definition ParseUnverified :: "libs \<Rightarrow> string \<Rightarrow> error + (Claims \<times> string \<times> string list)" where
  "ParseUnverified L tokenString =
     (let parts = Split tokenString (CHR ''.'')
      in if length parts \<noteq> 3
         then Inl (newError ''token contains an invalid number of segments'' ErrTokenMalformed [])
         else
           (case DecodeString (parts ! 0) of
              None \<Rightarrow> Inl (newError ''could not base64 decode header'' ErrTokenMalformed [])
            | Some headerBytes \<Rightarrow>
                (case Unmarshal_header L headerBytes of
                   Inl e \<Rightarrow> Inl (newError ''could not JSON decode header'' ErrTokenMalformed [e])
                 | Inr header \<Rightarrow>
                     (case DecodeString (parts ! 1) of
                        None \<Rightarrow> Inl (newError ''could not base64 decode claim'' ErrTokenMalformed [])
                      | Some claimBytes \<Rightarrow>
                          (case Unmarshal_claims L claimBytes of
                             Inl e \<Rightarrow>
                               Inl (newError ''could not JSON decode claim'' ErrTokenMalformed [e])
                           | Inr claims \<Rightarrow>
                               (case header_alg header of
                                  None \<Rightarrow>
                                    Inl (newError ''signing method (alg) is unspecified''
                                          ErrTokenUnverifiable [])
                                | Some method \<Rightarrow>
                                    if method \<in> set hmac_methods \<or> method \<in> set other_methods
                                    then Inr (claims, method, parts)
                                    else Inl (newError ''signing method (alg) is unavailable''
                                               ErrTokenUnverifiable [])))))))"

text \<open>
  \<open>method.Verify(signingString, sig, key)\<close> with a key that is a byte slice: a method of
  the HMAC family compares the signature with the code of the signing string; the other
  methods do not take such a key.
\<close>

definition Verify :: "libs \<Rightarrow> string \<Rightarrow> string \<Rightarrow> string \<Rightarrow> string \<Rightarrow> error option" where
  "Verify L method signingString sig key =
     (if method \<in> set hmac_methods
      then (if sig = hmac L method key signingString then None else Some ErrSignatureInvalid)
      else Some ErrInvalidKeyType)"

text \<open>
  \<open>validator.Validate(claims)\<close> with the default options: the expiry and the not-before
  instant are checked when present, against one reading of the clock.
\<close>

definition Validate :: "time \<Rightarrow> Claims \<Rightarrow> error list" where
  "Validate now claims =
     (case ExpiresAt claims of
        None \<Rightarrow> []
      | Some exp \<Rightarrow> if now < exp then [] else [ErrTokenExpired])
     @ (case NotBefore claims of
          None \<Rightarrow> []
        | Some nbf \<Rightarrow> if now < nbf then [ErrTokenNotValidYet] else [])"

text \<open>
  \<open>jwt.ParseWithClaims(tokenString, &Claims{}, keyFunc)\<close>; the result is the claims and the
  field \<open>Valid\<close> of the token.
\<close>

definition ParseWithClaims ::
  "libs \<Rightarrow> world \<Rightarrow> string \<Rightarrow> (string \<Rightarrow> error + string) \<Rightarrow> (error + (Claims \<times> bool)) \<times> world" where
  "ParseWithClaims L w tokenString keyFunc =
     (case ParseUnverified L tokenString of
        Inl e \<Rightarrow> (Inl e, w)
      | Inr (claims, method, parts) \<Rightarrow>
          (case DecodeString (parts ! 2) of
             None \<Rightarrow> (Inl (newError ''could not base64 decode signature'' ErrTokenMalformed []), w)
           | Some sig \<Rightarrow>
               (case keyFunc method of
                  Inl e \<Rightarrow>
                    (Inl (newError ''error while executing keyfunc'' ErrTokenUnverifiable [e]), w)
                | Inr key \<Rightarrow>
                    (case Verify L method (parts ! 0 @ ''.'' @ parts ! 1) sig key of
                       Some e \<Rightarrow> (Inl (newError [] ErrTokenSignatureInvalid [e]), w)
                     | None \<Rightarrow>
                         (case Now w of
                            (now, w1) \<Rightarrow>
                              (case Validate now claims of
                                 [] \<Rightarrow> (Inr (claims, True), w1)
                               | errs \<Rightarrow>
                                   (Inl (newError [] ErrTokenInvalidClaims [Joined errs]), w1)))))))"

section \<open>\<open>AuthService\<close>\<close>

text \<open>
  The service holds the signing secret; its repository is the user table of the world.
  Logging has no effect on the results and is left out.
\<close>

record AuthService =
  jwtSecret :: string

definition GenerateToken :: "libs \<Rightarrow> AuthService \<Rightarrow> world \<Rightarrow> User \<Rightarrow> (error + string) \<times> world" where
  "GenerateToken L s w user =
     (case Now w of
        (t1, w1) \<Rightarrow>
          (let expirationTime = t1 + 24 * Hour;
               email = (case Email user of None \<Rightarrow> [] | Some e \<Rightarrow> e)
           in case Now w1 of
                (t2, w2) \<Rightarrow>
                  (case Now w2 of
                     (t3, w3) \<Rightarrow>
                       (let claims = \<lparr>UserID = ID user, claims_Email = email,
                                      claims_Role = Role user,
                                      ExpiresAt = Some (NewNumericDate expirationTime),
                                      NotBefore = Some (NewNumericDate t3),
                                      IssuedAt = Some (NewNumericDate t2)\<rparr>
                        in case SignedString L claims (jwtSecret s) of
                             Inl e \<Rightarrow> (Inl (Wrap ''failed to sign token'' e), w3)
                           | Inr tokenString \<Rightarrow> (Inr tokenString, w3)))))"

text \<open>
  The claims that \<open>GenerateToken\<close> builds when it starts in the world \<open>w\<close>: the expiry
  from the first reading of the clock, the issue instant from the second, the not-before
  instant from the third.
\<close>

definition issued_claims :: "world \<Rightarrow> User \<Rightarrow> Claims" where
  "issued_claims w user =
     \<lparr>UserID = ID user,
      claims_Email = (case Email user of None \<Rightarrow> [] | Some e \<Rightarrow> e),
      claims_Role = Role user,
      ExpiresAt = Some (NewNumericDate (clock w (reads w) + 24 * Hour)),
      NotBefore = Some (NewNumericDate (clock w (reads w + 2))),
      IssuedAt = Some (NewNumericDate (clock w (reads w + 1)))\<rparr>"

text \<open>The key function that \<open>ValidateToken\<close> passes to the parser.\<close>

definition keyFunc :: "AuthService \<Rightarrow> string \<Rightarrow> error + string" where
  "keyFunc s method =
     (if method \<in> set hmac_methods then Inr (jwtSecret s)
      else Inl (New (''unexpected signing method: '' @ method)))"

definition ValidateToken ::
  "libs \<Rightarrow> AuthService \<Rightarrow> world \<Rightarrow> string \<Rightarrow> (error + (int \<times> string)) \<times> world" where
  "ValidateToken L s w tokenString =
     (case ParseWithClaims L w tokenString (keyFunc s) of
        (Inl err, w1) \<Rightarrow> (Inl (Wrap ''failed to parse token'' err), w1)
      | (Inr (claims, valid), w1) \<Rightarrow>
          if valid then (Inr (UserID claims, claims_Role claims), w1)
          else (Inl (New ''invalid token''), w1))"

definition Register ::
  "libs \<Rightarrow> AuthService \<Rightarrow> world \<Rightarrow> RegisterRequest \<Rightarrow> (error + AuthResponse) \<times> world" where
  "Register L s w req =
     (case GetUserByEmail w (reg_Email req) of
        (Inr _, w1) \<Rightarrow> (Inl (New ''user with this email already exists''), w1)
      | (Inl _, w1) \<Rightarrow>
          (case draw_salt w1 of
             (salt, w2) \<Rightarrow>
               (case GenerateFromPassword L salt (reg_Password req) of
                  Inl err \<Rightarrow> (Inl (Wrap ''failed to hash password'' err), w2)
                | Inr hashedPassword \<Rightarrow>
                    (let user = User_zero\<lparr>Email := Some (reg_Email req),
                                  PasswordHash := Some hashedPassword,
                                  Provider := Some ''local'', Role := ''user''\<rparr>
                     in case CreateUser w2 user of
                          (Inl err, w3) \<Rightarrow> (Inl (Wrap ''failed to create user'' err), w3)
                        | (Inr user', w3) \<Rightarrow>
                            (case GenerateToken L s w3 user' of
                               (Inl err, w4) \<Rightarrow> (Inl (Wrap ''failed to generate token'' err), w4)
                             | (Inr token, w4) \<Rightarrow>
                                 (Inr \<lparr>Token = token, AuthUser = user'\<rparr>, w4))))))"

definition Login ::
  "libs \<Rightarrow> AuthService \<Rightarrow> world \<Rightarrow> LoginRequest \<Rightarrow> (error + AuthResponse) \<times> world" where
  "Login L s w req =
     (case GetUserByEmail w (login_Email req) of
        (Inl _, w1) \<Rightarrow> (Inl (New ''invalid email or password''), w1)
      | (Inr user, w1) \<Rightarrow>
          (case PasswordHash user of
             None \<Rightarrow> (Inl (New ''user must login via OAuth''), w1)
           | Some h \<Rightarrow>
               (case CompareHashAndPassword L h (login_Password req) of
                  Some _ \<Rightarrow> (Inl (New ''invalid email or password''), w1)
                | None \<Rightarrow>
                    (case GenerateToken L s w1 user of
                       (Inl err, w2) \<Rightarrow> (Inl (Wrap ''failed to generate token'' err), w2)
                     | (Inr token, w2) \<Rightarrow>
                         (case Now w2 of
                            (now, w3) \<Rightarrow>
                              (case UpdateLastLogin w3 (ID user) now of
                                 (_, w4) \<Rightarrow>
                                   (case GetUserWithLastTrack w4 (ID user) of
                                      (Inl _, w5) \<Rightarrow>
                                        (Inr \<lparr>Token = token, AuthUser = user\<rparr>, w5)
                                    | (Inr userWithLastTrack, w5) \<Rightarrow>
                                        (Inr \<lparr>Token = token, AuthUser = userWithLastTrack\<rparr>,
                                         w5))))))))"

definition GuestLogin :: "libs \<Rightarrow> AuthService \<Rightarrow> world \<Rightarrow> (error + AuthResponse) \<times> world" where
  "GuestLogin L s w =
     (case CreateUser w (User_zero\<lparr>Role := ''guest''\<rparr>) of
        (Inl err, w1) \<Rightarrow> (Inl (Wrap ''failed to create guest user'' err), w1)
      | (Inr user, w1) \<Rightarrow>
          (case Now w1 of
             (now, w2) \<Rightarrow>
               (case UpdateLastLogin w2 (ID user) now of
                  (_, w3) \<Rightarrow>
                    (case GenerateToken L s w3 user of
                       (Inl err, w4) \<Rightarrow> (Inl (Wrap ''failed to generate token'' err), w4)
                     | (Inr token, w4) \<Rightarrow> (Inr \<lparr>Token = token, AuthUser = user\<rparr>, w4)))))"


section \<open>\<open>OAuthService\<close>: reconciliation and callback\<close>




section \<open>Middleware\<close>

text \<open>
  A request carries the header \<open>Authorization\<close>, when it has one, and the values of its
  context under the keys \<open>user_id\<close> and \<open>role\<close>. A middleware either writes a response
  (\<open>http.Error(w, body, status)\<close>, which ends the body with a newline) or calls the next
  handler with a request.
\<close>

record Request =
  Authorization :: "string option"
  ctx_user_id :: "int option"
  ctx_role :: "string option"

record Response =
  status :: nat
  body :: string

datatype outcome = Respond Response | Next Request

definition http_Error :: "string \<Rightarrow> nat \<Rightarrow> outcome" where
  "http_Error msg code = Respond \<lparr>status = code, body = msg @ [char_of (10::nat)]\<rparr>"

definition StatusUnauthorized :: nat where "StatusUnauthorized = 401"
definition StatusForbidden :: nat where "StatusForbidden = 403"
definition StatusInternalServerError :: nat where "StatusInternalServerError = 500"

text \<open>\<open>r.Header.Get("Authorization")\<close> is the empty string when the header is absent.\<close>

definition Header_Get_Authorization :: "Request \<Rightarrow> string" where
  "Header_Get_Authorization r = (case Authorization r of None \<Rightarrow> [] | Some v \<Rightarrow> v)"

definition AuthMiddleware :: "libs \<Rightarrow> AuthService \<Rightarrow> world \<Rightarrow> Request \<Rightarrow> outcome \<times> world" where
  "AuthMiddleware L s w r =
     (let authHeader = Header_Get_Authorization r
      in if authHeader = []
         then (http_Error ''{\"error\":\"Authorization header is required\"}'' StatusUnauthorized, w)
         else
           (let parts = Split authHeader (CHR '' '')
            in if length parts \<noteq> 2 \<or> parts ! 0 \<noteq> ''Bearer''
               then (http_Error
                      ''{\"error\":\"Invalid authorization header format. Expected: Bearer <token>\"}''
                      StatusUnauthorized, w)
               else
                 (case ValidateToken L s w (parts ! 1) of
                    (Inl _, w1) \<Rightarrow>
                      (http_Error ''{\"error\":\"Invalid or expired token\"}'' StatusUnauthorized, w1)
                  | (Inr (userID, role), w1) \<Rightarrow>
                      (Next (r\<lparr>ctx_user_id := Some userID, ctx_role := Some role\<rparr>), w1))))"

definition OptionalAuthMiddleware ::
  "libs \<Rightarrow> AuthService \<Rightarrow> world \<Rightarrow> Request \<Rightarrow> outcome \<times> world" where
  "OptionalAuthMiddleware L s w r =
     (let authHeader = Header_Get_Authorization r
      in if authHeader = [] then (Next r, w)
         else
           (let parts = Split authHeader (CHR '' '')
            in if length parts \<noteq> 2 \<or> parts ! 0 \<noteq> ''Bearer'' then (Next r, w)
               else
                 (case ValidateToken L s w (parts ! 1) of
                    (Inl _, w1) \<Rightarrow> (Next r, w1)
                  | (Inr (userID, role), w1) \<Rightarrow>
                      (Next (r\<lparr>ctx_user_id := Some userID, ctx_role := Some role\<rparr>), w1))))"

definition RequireAdmin :: "world \<Rightarrow> Request \<Rightarrow> outcome \<times> world" where
  "RequireAdmin w r =
     (case ctx_user_id r of
        None \<Rightarrow> (http_Error ''{\"error\":\"User not authenticated\"}'' StatusUnauthorized, w)
      | Some userID \<Rightarrow>
          (case GetUserByID w userID of
             (Inl _, w1) \<Rightarrow>
               (http_Error ''{\"error\":\"Failed to verify user permissions\"}''
                  StatusInternalServerError, w1)
           | (Inr user, w1) \<Rightarrow>
               if Role user \<noteq> ''admin''
               then (http_Error ''{\"error\":\"Forbidden: Admin access required\"}''
                       StatusForbidden, w1)
               else (Next r, w1)))"

definition RequireAuth :: "world \<Rightarrow> Request \<Rightarrow> outcome \<times> world" where
  "RequireAuth w r =
     (case ctx_user_id r of
        None \<Rightarrow> (http_Error ''{\"error\":\"User not authenticated\"}'' StatusUnauthorized, w)
      | Some userID \<Rightarrow>
          (case GetUserByID w userID of
             (Inl _, w1) \<Rightarrow>
               (http_Error ''{\"error\":\"Failed to verify user\"}'' StatusInternalServerError, w1)
           | (Inr user, w1) \<Rightarrow>
               if Role user \<noteq> ''user'' \<and> Role user \<noteq> ''admin'' \<and> Role user \<noteq> ''guest''
               then (http_Error ''{\"error\":\"Forbidden: Invalid user role\"}'' StatusForbidden, w1)
               else (Next r, w1)))"

section \<open>What is assumed of the libraries\<close>

text \<open>
  The properties of the library functions that the results below rest on:
  \<^item> a hash produced by \<open>bcrypt.GenerateFromPassword\<close> for a password is accepted by
    \<open>bcrypt.CompareHashAndPassword\<close> with that password;
  \<^item> the JSON encoding of the header \<open>{"typ": "JWT", "alg": "HS256"}\<close> decodes to a header
    with that \<open>alg\<close>;
  \<^item> the JSON encoding of claims whose role is one of the three roles and whose instants
    are whole seconds succeeds and decodes to claims with the same user id, role and
    instants.
\<close>

definition whole_seconds :: "time option \<Rightarrow> bool" where
  "whole_seconds t \<longleftrightarrow> (case t of None \<Rightarrow> True | Some x \<Rightarrow> x mod Second = 0)"

definition plain_claims :: "Claims \<Rightarrow> bool" where
  "plain_claims c \<longleftrightarrow>
     valid_role (claims_Role c) \<and> whole_seconds (ExpiresAt c) \<and> whole_seconds (NotBefore c)
     \<and> whole_seconds (IssuedAt c)"

definition claims_round_trip :: "libs \<Rightarrow> Claims \<Rightarrow> bool" where
  "claims_round_trip L c \<longleftrightarrow>
     (case Marshal_claims L c of
        Inl _ \<Rightarrow> False
      | Inr j \<Rightarrow>
          (case Unmarshal_claims L j of
             Inl _ \<Rightarrow> False
           | Inr c' \<Rightarrow>
               UserID c' = UserID c \<and> claims_Role c' = claims_Role c
               \<and> ExpiresAt c' = ExpiresAt c \<and> NotBefore c' = NotBefore c
               \<and> IssuedAt c' = IssuedAt c))"

definition header_round_trip :: "libs \<Rightarrow> bool" where
  "header_round_trip L \<longleftrightarrow>
     (case Marshal_header L \<lparr>header_typ = Some ''JWT'', header_alg = Some ''HS256''\<rparr> of
        Inl _ \<Rightarrow> False
      | Inr j \<Rightarrow>
          (case Unmarshal_header L j of
             Inl _ \<Rightarrow> False
           | Inr h \<Rightarrow> header_alg h = Some ''HS256''))"

definition json_laws :: "libs \<Rightarrow> bool" where
  "json_laws L \<longleftrightarrow> header_round_trip L \<and> (\<forall>c. plain_claims c \<longrightarrow> claims_round_trip L c)"

definition bcrypt_law :: "libs \<Rightarrow> bool" where
  "bcrypt_law L \<longleftrightarrow>
     (\<forall>salt password h. GenerateFromPassword L salt password = Inr h
        \<longrightarrow> CompareHashAndPassword L h password = None)"

section \<open>An instance of the libraries\<close>

text \<open>
  Stand-ins for the library functions, with which the model runs on concrete inputs: a
  hash that is the salt followed by the password, a message authentication code of 32
  bytes, an encoding of headers and claims as fields of decimal numbers and
  length-prefixed strings, and a provider that answers the code \<open>c\<close> with the identity of
  email \<open>c\<close>.
\<close>

definition put_nat :: "nat \<Rightarrow> string" where
  "put_nat n = fmt_uint n @ '';''"

definition get_nat :: "string \<Rightarrow> (nat \<times> string) option" where
  "get_nat s =
     (let ds = takeWhile is_digit s; r = dropWhile is_digit s
      in if ds = [] \<or> take 1 r \<noteq> '';'' then None else Some (digits_val ds, drop 1 r))"

definition put_int :: "int \<Rightarrow> string" where
  "put_int n = (if n < 0 then ''-'' else ''+'') @ put_nat (nat \<bar>n\<bar>)"

definition get_int :: "string \<Rightarrow> (int \<times> string) option" where
  "get_int s =
     (case s of
        [] \<Rightarrow> None
      | c # cs \<Rightarrow>
          (case get_nat cs of
             None \<Rightarrow> None
           | Some (n, r) \<Rightarrow>
               if c = CHR ''-'' then Some (- int n, r)
               else if c = CHR ''+'' then Some (int n, r)
               else None))"

definition put_str :: "string \<Rightarrow> string" where
  "put_str s = put_nat (length s) @ s"

definition get_str :: "string \<Rightarrow> (string \<times> string) option" where
  "get_str s =
     (case get_nat s of
        None \<Rightarrow> None
      | Some (n, r) \<Rightarrow> if n \<le> length r then Some (take n r, drop n r) else None)"

definition put_time :: "time option \<Rightarrow> string" where
  "put_time t = (case t of None \<Rightarrow> ''N'' | Some x \<Rightarrow> ''S'' @ put_int x)"

definition get_time :: "string \<Rightarrow> (time option \<times> string) option" where
  "get_time s =
     (case s of
        [] \<Rightarrow> None
      | c # cs \<Rightarrow>
          if c = CHR ''N'' then Some (None, cs)
          else if c = CHR ''S'' then
            (case get_int cs of None \<Rightarrow> None | Some (x, r) \<Rightarrow> Some (Some x, r))
          else None)"

definition put_opt_str :: "string option \<Rightarrow> string" where
  "put_opt_str t = (case t of None \<Rightarrow> ''N'' | Some x \<Rightarrow> ''S'' @ put_str x)"

definition get_opt_str :: "string \<Rightarrow> (string option \<times> string) option" where
  "get_opt_str s =
     (case s of
        [] \<Rightarrow> None
      | c # cs \<Rightarrow>
          if c = CHR ''N'' then Some (None, cs)
          else if c = CHR ''S'' then
            (case get_str cs of None \<Rightarrow> None | Some (x, r) \<Rightarrow> Some (Some x, r))
          else None)"

definition malformed :: error where
  "malformed = New ''unexpected end of JSON input''"

definition test_Marshal_claims :: "Claims \<Rightarrow> error + string" where
  "test_Marshal_claims c =
     Inr (put_int (UserID c) @ put_str (claims_Email c) @ put_str (claims_Role c)
          @ put_time (ExpiresAt c) @ put_time (NotBefore c) @ put_time (IssuedAt c))"

definition test_Unmarshal_claims :: "string \<Rightarrow> error + Claims" where
  "test_Unmarshal_claims s =
     (case get_int s of
        None \<Rightarrow> Inl malformed
      | Some (uid, r1) \<Rightarrow>
          (case get_str r1 of
             None \<Rightarrow> Inl malformed
           | Some (email, r2) \<Rightarrow>
               (case get_str r2 of
                  None \<Rightarrow> Inl malformed
                | Some (role, r3) \<Rightarrow>
                    (case get_time r3 of
                       None \<Rightarrow> Inl malformed
                     | Some (exp, r4) \<Rightarrow>
                         (case get_time r4 of
                            None \<Rightarrow> Inl malformed
                          | Some (nbf, r5) \<Rightarrow>
                              (case get_time r5 of
                                 None \<Rightarrow> Inl malformed
                               | Some (iat, r6) \<Rightarrow>
                                   if r6 = []
                                   then Inr \<lparr>UserID = uid, claims_Email = email,
                                             claims_Role = role, ExpiresAt = exp,
                                             NotBefore = nbf, IssuedAt = iat\<rparr>
                                   else Inl malformed))))))"

definition test_Marshal_header :: "Header \<Rightarrow> error + string" where
  "test_Marshal_header h = Inr (put_opt_str (header_typ h) @ put_opt_str (header_alg h))"

definition test_Unmarshal_header :: "string \<Rightarrow> error + Header" where
  "test_Unmarshal_header s =
     (case get_opt_str s of
        None \<Rightarrow> Inl malformed
      | Some (t, r1) \<Rightarrow>
          (case get_opt_str r1 of
             None \<Rightarrow> Inl malformed
           | Some (a, r2) \<Rightarrow>
               if r2 = [] then Inr \<lparr>header_typ = t, header_alg = a\<rparr> else Inl malformed))"

definition test_hmac :: "string \<Rightarrow> string \<Rightarrow> string \<Rightarrow> string" where
  "test_hmac method key message = replicate 32 (char_of (length (method @ key @ message)))"

definition test_libs :: libs where
  "test_libs =
     \<lparr>GenerateFromPassword = (\<lambda>salt password. Inr (salt @ ''$'' @ password)),
      CompareHashAndPassword = (\<lambda>h password.
         if drop (length h - length password) h = password
            \<and> take 1 (drop (length h - length password - 1) h) = ''$''
            \<and> length password < length h
         then None
         else Some (New ''crypto/bcrypt: hashedPassword is not the hash of the given password'')),
      hmac = test_hmac,
      Marshal_header = test_Marshal_header,
      Unmarshal_header = test_Unmarshal_header,
      Marshal_claims = test_Marshal_claims,
      Unmarshal_claims = test_Unmarshal_claims,
      Exchange = (\<lambda>config code. Inr code),
      getUserInfo = (\<lambda>provider token.
         Inr \<lparr>info_Email = token, info_Name = [], info_AvatarURL = [],
              info_ExternalID = ''id-of-'' @ token, info_Provider = provider\<rparr>)\<rparr>"

text \<open>A world with an empty table, a clock that ticks, no failing call.\<close>

definition world0 :: world where
  "world0 = \<lparr>users = [], next_id = 1,
     clock = (\<lambda>n. 1700000000 * Second + 250000000 + int n * 1000),
     reads = 0, faults = (\<lambda>n. False), calls = 0, entropy = (\<lambda>n. ''salt''), draws = 0\<rparr>"


section \<open>Properties of the OAuth state\<close>

subsection \<open>Printing and scanning a decimal number\<close>

lemma digit_char_is_digit: "d < 10 \<Longrightarrow> is_digit (digit_char d)"
  by (simp add: is_digit_def digit_char_def)

lemma digit_val_digit_char: "d < 10 \<Longrightarrow> digit_val (digit_char d) = d"
  by (simp add: digit_val_def digit_char_def)

lemma fmt_uint_digits: "c \<in> set (fmt_uint n) \<Longrightarrow> is_digit c"
proof (induction n arbitrary: c rule: fmt_uint.induct)
  case (1 n)
  show ?case
  proof (cases "n < 10")
    case True
    with 1(2) show ?thesis
      by (subst (asm) fmt_uint.simps) (simp add: digit_char_is_digit)
  next
    case False
    from 1(2) False have "c \<in> set (fmt_uint (n div 10)) \<or> c = digit_char (n mod 10)"
      by (subst (asm) fmt_uint.simps) auto
    with 1(1) False show ?thesis
      by (auto simp: digit_char_is_digit)
  qed
qed

lemma fmt_uint_nonempty: "fmt_uint n \<noteq> []"
  by (subst fmt_uint.simps) simp

lemma digits_val_snoc: "digits_val (ds @ [c]) = 10 * digits_val ds + digit_val c"
  by (simp add: digits_val_def)

lemma digits_val_fmt_uint: "digits_val (fmt_uint n) = n"
proof (induction n rule: fmt_uint.induct)
  case (1 n)
  show ?case
  proof (cases "n < 10")
    case True
    then show ?thesis
      by (subst fmt_uint.simps) (simp add: digits_val_def digit_val_digit_char)
  next
    case False
    with 1 have "digits_val (fmt_uint (n div 10)) = n div 10" by simp
    with False show ?thesis
      by (subst fmt_uint.simps) (simp add: digits_val_snoc digit_val_digit_char)
  qed
qed

text \<open>A string that starts with a digit or a minus sign has no white space to skip.\<close>

lemma space_width_ascii:
  "of_char c < (128::nat) \<Longrightarrow> (of_char c :: nat) \<notin> {9, 11, 12, 13, 32} \<Longrightarrow> space_width (c # cs) = None"
  by (simp add: space_width_def space_runes_def)

lemma SkipSpace_loop_plain:
  "of_char c < (128::nat) \<Longrightarrow> (of_char c :: nat) \<notin> {9, 10, 11, 12, 13, 32} \<Longrightarrow>
   SkipSpace_loop k (c # cs) = Some (c # cs)"
  by (cases k) (simp_all add: space_width_ascii)

lemma SkipSpace_plain:
  "of_char c < (128::nat) \<Longrightarrow> (of_char c :: nat) \<notin> {9, 10, 11, 12, 13, 32} \<Longrightarrow>
   SkipSpace (c # cs) = Some (c # cs)"
  unfolding SkipSpace_def by (rule SkipSpace_loop_plain)

lemma SkipSpace_digit: "is_digit c \<Longrightarrow> SkipSpace (c # cs) = Some (c # cs)"
  by (rule SkipSpace_plain) (auto simp: is_digit_def)

lemma SkipSpace_minus: "SkipSpace (CHR ''-'' # cs) = Some (CHR ''-'' # cs)"
  by (rule SkipSpace_plain) simp_all

lemma is_digit_not_sign: "is_digit c \<Longrightarrow> c \<noteq> CHR ''-'' \<and> c \<noteq> CHR ''+''"
  by (auto simp: is_digit_def)

lemma takeWhile_all: "\<forall>c \<in> set ds. P c \<Longrightarrow> takeWhile P ds = ds"
  by (induction ds) auto

lemma fmt_uint_Cons: "\<exists>d ds. fmt_uint n = d # ds \<and> is_digit d"
proof (cases "fmt_uint n")
  case Nil
  then show ?thesis by (simp add: fmt_uint_nonempty)
next
  case (Cons d ds)
  then have "d \<in> set (fmt_uint n)" by simp
  then show ?thesis using Cons fmt_uint_digits by blast
qed

lemma scanInt_digits:
  assumes "ds \<noteq> []" "\<forall>c \<in> set ds. is_digit c"
  shows "scanInt ds =
    (if int (digits_val ds) < int_min \<or> int_max < int (digits_val ds) then None
     else Some (int (digits_val ds)))"
proof -
  obtain d ds' where ds: "ds = d # ds'" using assms(1) by (cases ds) auto
  then have d: "is_digit d" using assms(2) by simp
  have skip: "SkipSpace ds = Some ds" unfolding ds using d by (rule SkipSpace_digit)
  have sign: "take 1 ds \<noteq> ''-''" "take 1 ds \<noteq> ''+''"
    using is_digit_not_sign [OF d] by (simp_all add: ds)
  have tw: "takeWhile is_digit ds = ds" using assms(2) by (rule takeWhile_all)
  show ?thesis
    unfolding scanInt_def skip option.case Let_def using sign assms(1) by (simp add: tw)
qed

lemma scanInt_minus_digits:
  assumes "ds \<noteq> []" "\<forall>c \<in> set ds. is_digit c"
  shows "scanInt (CHR ''-'' # ds) =
    (if - int (digits_val ds) < int_min \<or> int_max < - int (digits_val ds) then None
     else Some (- int (digits_val ds)))"
proof -
  have skip: "SkipSpace (CHR ''-'' # ds) = Some (CHR ''-'' # ds)" by (rule SkipSpace_minus)
  have tw: "takeWhile is_digit ds = ds" using assms(2) by (rule takeWhile_all)
  show ?thesis
    unfolding scanInt_def skip option.case Let_def using assms(1) by (simp add: tw)
qed

lemma scanInt_Sprintf_d:
  assumes "int_min \<le> n" "n \<le> int_max"
  shows "scanInt (Sprintf_d n) = Some n"
proof (cases "n < 0")
  case True
  have "scanInt (CHR ''-'' # fmt_uint (nat (- n))) = Some n"
    using True assms
    by (subst scanInt_minus_digits) (simp_all add: fmt_uint_nonempty fmt_uint_digits digits_val_fmt_uint)
  with True show ?thesis by (simp add: Sprintf_d_def)
next
  case False
  have "scanInt (fmt_uint (nat n)) = Some n"
    using False assms
    by (subst scanInt_digits) (simp_all add: fmt_uint_nonempty fmt_uint_digits digits_val_fmt_uint)
  with False show ?thesis by (simp add: Sprintf_d_def)
qed

lemma SkipSpace_Sprintf_d: "SkipSpace (Sprintf_d n) = Some (Sprintf_d n)"
proof -
  obtain d ds where dd: "fmt_uint (nat \<bar>n\<bar>) = d # ds" "is_digit d"
    using fmt_uint_Cons by blast
  show ?thesis
  proof (cases "n < 0")
    case True
    then show ?thesis by (simp add: Sprintf_d_def SkipSpace_minus)
  next
    case False
    then have "Sprintf_d n = d # ds" using dd by (simp add: Sprintf_d_def)
    then show ?thesis using dd by (simp add: SkipSpace_digit)
  qed
qed

lemma Sscanf_d_Sprintf_d:
  "int_min \<le> n \<Longrightarrow> n \<le> int_max \<Longrightarrow> Sscanf_d (Sprintf_d n) = Some n"
  by (simp add: Sscanf_d_def SkipSpace_Sprintf_d scanInt_Sprintf_d)



lemma findSubstring_loop_none:
  "(\<forall>i<k. take (length sub) (drop i s) \<noteq> sub) \<Longrightarrow> findSubstring_loop s sub k = - 1"
  by (induction k) auto

lemma findSubstring_loop_last:
  "j < k \<Longrightarrow> take (length sub) (drop j s) = sub \<Longrightarrow>
   (\<forall>i. j < i \<and> i < k \<longrightarrow> take (length sub) (drop i s) \<noteq> sub) \<Longrightarrow>
   findSubstring_loop s sub k = int j"
proof (induction k)
  case 0
  then show ?case by simp
next
  case (Suc k)
  show ?case
  proof (cases "j = k")
    case True
    with Suc.prems show ?thesis by simp
  next
    case False
    with Suc.prems have "j < k" by simp
    moreover from Suc.prems \<open>j < k\<close> have "take (length sub) (drop k s) \<noteq> sub" by simp
    ultimately show ?thesis using Suc by simp
  qed
qed

lemma occurrence_decomp:
  "take (length sub) (drop i s) = sub \<Longrightarrow> s = take i s @ sub @ drop (i + length sub) s"
  by (metis append_take_drop_id drop_drop add.commute)

text \<open>No occurrence of the substring: the search returns \<open>-1\<close>.\<close>

lemma findSubstring_absent:
  assumes "\<not> (\<exists>u v. s = u @ sub @ v)"
  shows "findSubstring s sub = - 1"
proof -
  have "take (length sub) (drop i s) \<noteq> sub" for i
    using assms occurrence_decomp by blast
  then have "findSubstring_loop s sub k = - 1" for k
    by (intro findSubstring_loop_none allI impI)
  then show ?thesis
    by (simp add: findSubstring_def del: findSubstring_loop.simps)
qed

text \<open>The search returns the start of the last occurrence.\<close>

lemma findSubstring_last:
  assumes "\<forall>u' v'. u @ sub @ v = u' @ sub @ v' \<longrightarrow> length u' \<le> length u"
  shows "findSubstring (u @ sub @ v) sub = int (length u)"
proof -
  let ?s = "u @ sub @ v"
  have later: "take (length sub) (drop i ?s) \<noteq> sub" if "length u < i" "i \<le> length ?s" for i
  proof
    assume "take (length sub) (drop i ?s) = sub"
    then have "?s = take i ?s @ sub @ drop (i + length sub) ?s"
      by (rule occurrence_decomp)
    with assms have "length (take i ?s) \<le> length u" by blast
    moreover have "length (take i ?s) = i"
      using that(2) by (simp only: length_take min_absorb2)
    ultimately show False using that(1) by simp
  qed
  have here: "take (length sub) (drop (length u) ?s) = sub" by simp
  have "findSubstring_loop ?s sub (Suc (length ?s - length sub)) = int (length u)"
    by (rule findSubstring_loop_last) (use later here in auto)
  then show ?thesis by (simp add: findSubstring_def)
qed


lemma last_occurrence_by_char:
  assumes "c \<notin> set v" and eq: "u @ (sub0 @ [c]) @ v = u' @ (sub0 @ [c]) @ v'"
  shows "length u' \<le> length u"
proof (rule ccontr)
  assume "\<not> length u' \<le> length u"
  then have lt: "length u < length u'" by simp
  let ?k = "length u' + length sub0"
  let ?w = "u @ sub0 @ [c]"
  have len: "length u + length sub0 + 1 + length v = length u' + length sub0 + 1 + length v'"
    using arg_cong [OF eq, of length] by simp
  have "((u' @ sub0) @ c # v') ! length (u' @ sub0) = c"
    by (rule nth_append_length)
  then have "((u' @ sub0) @ c # v') ! ?k = c"
    by (simp only: length_append)
  then have "(?w @ v) ! ?k = c" using eq by simp
  moreover have "length ?w \<le> ?k" using lt by simp
  ultimately have "v ! (?k - length ?w) = c"
    by (simp only: nth_append not_less [symmetric] if_False)
  moreover have "?k - length ?w < length v"
    using lt len by simp
  ultimately have "c \<in> set v" using nth_mem by metis
  with assms(1) show False by simp
qed

lemma guest_prefix_split: "''guest:'' = ''guest'' @ [CHR '':'']"
  by simp

lemma findSubstring_state:
  assumes "CHR '':'' \<notin> set v"
  shows "findSubstring (p @ '':guest:'' @ v) ''guest:'' = int (length p) + 1"
proof -
  have "findSubstring ((p @ '':'') @ ''guest:'' @ v) ''guest:'' = int (length (p @ '':''))"
  proof (rule findSubstring_last, intro allI impI)
    fix u' v'
    assume "(p @ '':'') @ ''guest:'' @ v = u' @ ''guest:'' @ v'"
    then have "(p @ '':'') @ (''guest'' @ [CHR '':'']) @ v = u' @ (''guest'' @ [CHR '':'']) @ v'"
      by simp
    with assms show "length u' \<le> length (p @ '':'')"
      by (rule last_occurrence_by_char)
  qed
  then show ?thesis by simp
qed

lemma colon_not_digit: "\<not> is_digit (CHR '':'')"
  by (simp add: is_digit_def)

lemma Sprintf_d_no_colon: "CHR '':'' \<notin> set (Sprintf_d n)"
  using fmt_uint_digits colon_not_digit by (auto simp: Sprintf_d_def)

lemma parseStateForGuestID_state:
  assumes "CHR '':'' \<notin> set v"
  shows "parseStateForGuestID (p @ '':guest:'' @ v) = (case Sscanf_d v of None \<Rightarrow> 0 | Some g \<Rightarrow> g)"
proof -
  let ?s = "p @ '':guest:'' @ v"
  have f: "findSubstring ?s ''guest:'' = int (length p) + 1"
    using assms by (rule findSubstring_state)
  have ne: "?s \<noteq> []" by simp
  have "nat (int (length p) + 1) + length ''guest:'' = length (p @ '':guest:'')" by simp
  moreover have "drop (length (p @ '':guest:'')) ((p @ '':guest:'') @ v) = v"
    by (metis append_eq_conv_conj)
  ultimately have d: "drop (nat (int (length p) + 1) + length ''guest:'') ?s = v"
    by (simp only: append_assoc)
  have idx: "int (length p) + 1 \<noteq> - 1" by simp
  show ?thesis
    unfolding parseStateForGuestID_def Let_def f d using ne idx by (simp only: if_False)
qed

lemma parseStateForGuestID_auth_state:
  "int_min \<le> n \<Longrightarrow> n \<le> int_max \<Longrightarrow> parseStateForGuestID (auth_state provider (Some n)) = n"
  unfolding auth_state_def option.case
  by (subst parseStateForGuestID_state) (simp_all add: Sprintf_d_no_colon Sscanf_d_Sprintf_d)

lemma fmt_uint_0: "fmt_uint 0 = ''0''"
  by (subst fmt_uint.simps) (simp add: digit_char_def char_of_eq_iff)

lemma parseStateForGuestID_auth_state_None:
  "parseStateForGuestID (auth_state provider None) = 0"
proof -
  have "auth_state provider None = auth_state provider (Some 0)"
    by (simp add: auth_state_def Sprintf_d_def fmt_uint_0)
  then show ?thesis
    by (simp add: parseStateForGuestID_auth_state int_min_def int_max_def)
qed


text \<open>
  C10. Round trip of the OAuth state. For every provider tag and every guest identifier
  \<open>n\<close> (a Go \<open>int\<close>), \<open>parseStateForGuestID\<close> returns \<open>n\<close> on the state
  \<open>"<provider>:guest:<n>"\<close>, and \<open>0\<close> on the state built for no guest; the state of a
  successful \<open>GetAuthURL\<close> is that string. A state without the substring \<open>"guest:"\<close>, and
  a state whose suffix after the last \<open>"guest:"\<close> is not scanned as an integer, give \<open>0\<close>.
\<close>

theorem oauth_state_round_trip:
  "(int_min \<le> n \<and> n \<le> int_max \<longrightarrow> parseStateForGuestID (auth_state provider (Some n)) = n)
   \<and> parseStateForGuestID (auth_state provider None) = 0
   \<and> (GetAuthURL s provider g = Inr (AuthCodeURL cfg state) \<longrightarrow> state = auth_state provider g)
   \<and> (\<not> (\<exists>u v. st = u @ ''guest:'' @ v) \<longrightarrow> parseStateForGuestID st = 0)
   \<and> ((\<forall>u' v'. u @ ''guest:'' @ v = u' @ ''guest:'' @ v' \<longrightarrow> length u' \<le> length u)
        \<and> Sscanf_d v = None
        \<longrightarrow> parseStateForGuestID (u @ ''guest:'' @ v) = 0)"
proof (intro conjI impI)
  show "parseStateForGuestID (auth_state provider (Some n)) = n"
    if "int_min \<le> n \<and> n \<le> int_max"
    using that by (simp add: parseStateForGuestID_auth_state)
  show "parseStateForGuestID (auth_state provider None) = 0"
    by (rule parseStateForGuestID_auth_state_None)
  show "state = auth_state provider g"
    if "GetAuthURL s provider g = Inr (AuthCodeURL cfg state)"
    using that by (auto simp: GetAuthURL_def split: if_splits)
  show "parseStateForGuestID st = 0" if "\<not> (\<exists>u v. st = u @ ''guest:'' @ v)"
    using findSubstring_absent [OF that] by (simp add: parseStateForGuestID_def)
  show "parseStateForGuestID (u @ ''guest:'' @ v) = 0"
    if h: "(\<forall>u' v'. u @ ''guest:'' @ v = u' @ ''guest:'' @ v' \<longrightarrow> length u' \<le> length u)
        \<and> Sscanf_d v = None"
  proof -
    let ?s = "u @ ''guest:'' @ v"
    have f: "findSubstring ?s ''guest:'' = int (length u)"
      using h by (intro findSubstring_last) blast
    have "drop (length (u @ ''guest:'')) ((u @ ''guest:'') @ v) = v"
      by (metis append_eq_conv_conj)
    moreover have "nat (int (length u)) + length ''guest:'' = length (u @ ''guest:'')" by simp
    ultimately have d: "drop (nat (int (length u)) + length ''guest:'') ?s = v"
      by (simp only: append_assoc)
    have ne: "?s \<noteq> []" by simp
    have idx: "int (length u) \<noteq> - 1" by simp
    from h have sc: "Sscanf_d v = None" by simp
    show ?thesis
      unfolding parseStateForGuestID_def Let_def f d sc using ne idx
      by (simp only: if_False option.case)
  qed
qed

theorem oauth_state_round_trip_witness:
  "parseStateForGuestID (auth_state ''google'' (Some 42)) = 42
   \<and> parseStateForGuestID (auth_state ''google'' None) = 0
   \<and> GetAuthURL
        \<lparr>googleConfig = \<lparr>ClientID = ''id'', ClientSecret = ''key'', RedirectURL = ''/cb'', Scopes = []\<rparr>,
         yandexConfig = \<lparr>ClientID = [], ClientSecret = [], RedirectURL = [], Scopes = []\<rparr>,
         frontendURL = ''/''\<rparr> ''google'' (Some 42)
       = Inr (AuthCodeURL \<lparr>ClientID = ''id'', ClientSecret = ''key'', RedirectURL = ''/cb'', Scopes = []\<rparr>
               (auth_state ''google'' (Some 42)))
   \<and> auth_state ''google'' (Some 42) = ''google:guest:42''
   \<and> parseStateForGuestID ''x'' = 0
   \<and> Sscanf_d ''x'' = None
   \<and> parseStateForGuestID (''google:'' @ ''guest:'' @ ''x'') = 0"
proof -
  let ?svc = "\<lparr>googleConfig = \<lparr>ClientID = ''id'', ClientSecret = ''key'', RedirectURL = ''/cb'', Scopes = []\<rparr>,
         yandexConfig = \<lparr>ClientID = [], ClientSecret = [], RedirectURL = [], Scopes = []\<rparr>,
         frontendURL = ''/''\<rparr>"
  let ?cfg = "\<lparr>ClientID = ''id'', ClientSecret = ''key'', RedirectURL = ''/cb'', Scopes = []\<rparr>"
  have h1: "int_min \<le> 42 \<and> 42 \<le> int_max"
    by (simp add: int_min_def int_max_def)
  have h3: "GetAuthURL ?svc ''google'' (Some 42) = Inr (AuthCodeURL ?cfg (auth_state ''google'' (Some 42)))"
    by (simp add: GetAuthURL_def)
  have st: "auth_state ''google'' (Some 42) = ''google:guest:42''"
    by (simp add: auth_state_def Sprintf_d_def fmt_uint.simps digit_char_def char_of_eq_iff)
  have h4: "\<not> (\<exists>u v. ''x'' = u @ ''guest:'' @ v)"
    by (auto simp: Cons_eq_append_conv)
  have h5a: "\<forall>u' v'. ''google:'' @ ''guest:'' @ ''x'' = u' @ ''guest:'' @ v' \<longrightarrow> length u' \<le> length ''google:''"
  proof (intro allI impI)
    fix u' v'
    assume "''google:'' @ ''guest:'' @ ''x'' = u' @ ''guest:'' @ v'"
    then have eq: "''google:'' @ (''guest'' @ [CHR '':'']) @ ''x'' = u' @ (''guest'' @ [CHR '':'']) @ v'"
      by simp
    have notin: "CHR '':'' \<notin> set ''x''" by simp
    from notin eq show "length u' \<le> length ''google:''"
      by (rule last_occurrence_by_char)
  qed
  have h5b: "Sscanf_d ''x'' = None"
    by (simp add: Sscanf_d_def SkipSpace_def space_width_def space_runes_def scanInt_def is_digit_def)
  note t = oauth_state_round_trip [where n = 42 and provider = "''google''" and s = ?svc
      and g = "Some 42" and cfg = ?cfg and state = "auth_state ''google'' (Some 42)"
      and st = "''x''" and u = "''google:''" and v = "''x''"]
  have c1: "parseStateForGuestID (auth_state ''google'' (Some 42)) = 42"
    by (rule t [THEN conjunct1, THEN mp, OF h1])
  have c2: "parseStateForGuestID (auth_state ''google'' None) = 0"
    by (rule t [THEN conjunct2, THEN conjunct1])
  have c4: "parseStateForGuestID ''x'' = 0"
    by (rule t [THEN conjunct2, THEN conjunct2, THEN conjunct2, THEN conjunct1, THEN mp, OF h4])
  have c5: "parseStateForGuestID (''google:'' @ ''guest:'' @ ''x'') = 0"
    by (rule t [THEN conjunct2, THEN conjunct2, THEN conjunct2, THEN conjunct2, THEN mp,
          OF conjI [OF h5a h5b]])
  show ?thesis
    using c1 c2 h3 st c4 h5b c5 by (intro conjI)
qed

section \<open>Properties of the repository\<close>

lemma GetUserByID_found:
  "\<not> faults w (calls w) \<Longrightarrow> find (\<lambda>u. ID u = i) (users w) = Some u \<Longrightarrow>
   GetUserByID w i = (Inr u, w\<lparr>calls := Suc (calls w)\<rparr>)"
  by (simp add: GetUserByID_def driver_call_def)

lemma GetUserByID_missing:
  "\<not> faults w (calls w) \<Longrightarrow> find (\<lambda>u. ID u = i) (users w) = None \<Longrightarrow>
   GetUserByID w i = (Inl (New ''user not found''), w\<lparr>calls := Suc (calls w)\<rparr>)"
  by (simp add: GetUserByID_def driver_call_def)


lemma GetUserByEmail_missing:
  "\<not> faults w (calls w) \<Longrightarrow> find (\<lambda>u. Email u = Some e) (users w) = None \<Longrightarrow>
   GetUserByEmail w e = (Inl (New ''user not found''), w\<lparr>calls := Suc (calls w)\<rparr>)"
  by (simp add: GetUserByEmail_def driver_call_def)

lemma GetUserByEmail_fault:
  "faults w (calls w) \<Longrightarrow>
   GetUserByEmail w e = (Inl (Wrap ''failed to get user by email'' driver_error), w\<lparr>calls := Suc (calls w)\<rparr>)"
  by (simp add: GetUserByEmail_def driver_call_def)

section \<open>Properties of the middleware\<close>

text \<open>
  C9. A role gate decides on the role stored for the account that it fetches again by the
  id of the request context, whatever role the context (the claim of the token) carries:
  \<open>RequireAdmin\<close> calls the next handler exactly when the stored role is \<open>admin\<close>, and
  answers 403 for every other role; \<open>RequireAuth\<close> calls the next handler exactly when
  the stored role is \<open>user\<close>, \<open>admin\<close> or \<open>guest\<close>, and answers 403 for every other role.
\<close>

theorem role_gates_use_stored_role:
  assumes "ctx_user_id r = Some uid" and "\<not> faults w (calls w)"
    and "find (\<lambda>u. ID u = uid) (users w) = Some u"
  shows "(fst (RequireAdmin w r) = Next r \<longleftrightarrow> Role u = ''admin'')
    \<and> (Role u \<noteq> ''admin'' \<longrightarrow>
         fst (RequireAdmin w r)
           = http_Error ''{\"error\":\"Forbidden: Admin access required\"}'' StatusForbidden)
    \<and> (fst (RequireAuth w r) = Next r \<longleftrightarrow> Role u = ''user'' \<or> Role u = ''admin'' \<or> Role u = ''guest'')
    \<and> (Role u \<noteq> ''user'' \<and> Role u \<noteq> ''admin'' \<and> Role u \<noteq> ''guest'' \<longrightarrow>
         fst (RequireAuth w r)
           = http_Error ''{\"error\":\"Forbidden: Invalid user role\"}'' StatusForbidden)"
  using assms
  by (simp add: RequireAdmin_def RequireAuth_def GetUserByID_found http_Error_def)


theorem role_gates_use_stored_role_witness:
  "fst (RequireAdmin (world0\<lparr>users := [User_zero\<lparr>ID := 1, Role := ''admin''\<rparr>]\<rparr>)
         \<lparr>Authorization = None, ctx_user_id = Some 1, ctx_role = Some ''user''\<rparr>)
     = Next \<lparr>Authorization = None, ctx_user_id = Some 1, ctx_role = Some ''user''\<rparr>
   \<and> fst (RequireAuth (world0\<lparr>users := [User_zero\<lparr>ID := 1, Role := ''admin''\<rparr>]\<rparr>)
         \<lparr>Authorization = None, ctx_user_id = Some 1, ctx_role = Some ''user''\<rparr>)
     = Next \<lparr>Authorization = None, ctx_user_id = Some 1, ctx_role = Some ''user''\<rparr>
   \<and> fst (RequireAdmin (world0\<lparr>users := [User_zero\<lparr>ID := 1, Role := ''root''\<rparr>]\<rparr>)
         \<lparr>Authorization = None, ctx_user_id = Some 1, ctx_role = Some ''admin''\<rparr>)
     = http_Error ''{\"error\":\"Forbidden: Admin access required\"}'' StatusForbidden
   \<and> fst (RequireAuth (world0\<lparr>users := [User_zero\<lparr>ID := 1, Role := ''root''\<rparr>]\<rparr>)
         \<lparr>Authorization = None, ctx_user_id = Some 1, ctx_role = Some ''admin''\<rparr>)
     = http_Error ''{\"error\":\"Forbidden: Invalid user role\"}'' StatusForbidden"
  using role_gates_use_stored_role
     [of "\<lparr>Authorization = None, ctx_user_id = Some 1, ctx_role = Some ''user''\<rparr>" 1
         "world0\<lparr>users := [User_zero\<lparr>ID := 1, Role := ''admin''\<rparr>]\<rparr>"
         "User_zero\<lparr>ID := 1, Role := ''admin''\<rparr>"]
    role_gates_use_stored_role
     [of "\<lparr>Authorization = None, ctx_user_id = Some 1, ctx_role = Some ''admin''\<rparr>" 1
         "world0\<lparr>users := [User_zero\<lparr>ID := 1, Role := ''root''\<rparr>]\<rparr>"
         "User_zero\<lparr>ID := 1, Role := ''root''\<rparr>"]
  by (simp add: world0_def User_zero_def)

text \<open>
  C8, as stated, fails: the required middleware answers a malformed header and an absent
  header with different responses (the bodies differ).
\<close>

theorem malformed_header_counterexample:
  "fst (AuthMiddleware test_libs \<lparr>jwtSecret = ''secret''\<rparr> world0
         \<lparr>Authorization = Some ''Basic abc'', ctx_user_id = None, ctx_role = None\<rparr>)
   \<noteq> fst (AuthMiddleware test_libs \<lparr>jwtSecret = ''secret''\<rparr> world0
         \<lparr>Authorization = None, ctx_user_id = None, ctx_role = None\<rparr>)"
  by (simp add: AuthMiddleware_def Header_Get_Authorization_def http_Error_def)

text \<open>
  C8, amended. A header that is not empty and is malformed (not exactly two parts
  separated by a space, or a scheme other than \<open>Bearer\<close>) and an absent header are both
  rejected by the required middleware with the status 401, without validating a token and
  without calling the next handler, each with a message of its own; the optional
  middleware passes the request on unchanged, with no identity attached, in both cases.
\<close>

theorem malformed_header_like_absent:
  assumes "h \<noteq> []" and "length (Split h (CHR '' '')) \<noteq> 2 \<or> Split h (CHR '' '') ! 0 \<noteq> ''Bearer''"
  shows "AuthMiddleware L s w (r\<lparr>Authorization := Some h\<rparr>)
       = (Respond \<lparr>status = 401,
            body = ''{\"error\":\"Invalid authorization header format. Expected: Bearer <token>\"}''
                   @ [char_of (10::nat)]\<rparr>, w)
    \<and> AuthMiddleware L s w (r\<lparr>Authorization := None\<rparr>)
       = (Respond \<lparr>status = 401,
            body = ''{\"error\":\"Authorization header is required\"}'' @ [char_of (10::nat)]\<rparr>, w)
    \<and> OptionalAuthMiddleware L s w (r\<lparr>Authorization := Some h\<rparr>)
       = (Next (r\<lparr>Authorization := Some h\<rparr>), w)
    \<and> OptionalAuthMiddleware L s w (r\<lparr>Authorization := None\<rparr>)
       = (Next (r\<lparr>Authorization := None\<rparr>), w)"
  using assms
  by (auto simp: AuthMiddleware_def OptionalAuthMiddleware_def Header_Get_Authorization_def
        http_Error_def StatusUnauthorized_def Let_def)

theorem malformed_header_like_absent_witness:
  "AuthMiddleware test_libs \<lparr>jwtSecret = ''secret''\<rparr> world0
      \<lparr>Authorization = Some ''Basic abc'', ctx_user_id = None, ctx_role = None\<rparr>
     = (Respond \<lparr>status = 401,
          body = ''{\"error\":\"Invalid authorization header format. Expected: Bearer <token>\"}''
                 @ [char_of (10::nat)]\<rparr>, world0)
   \<and> OptionalAuthMiddleware test_libs \<lparr>jwtSecret = ''secret''\<rparr> world0
      \<lparr>Authorization = Some ''Basic abc'', ctx_user_id = None, ctx_role = None\<rparr>
     = (Next \<lparr>Authorization = Some ''Basic abc'', ctx_user_id = None, ctx_role = None\<rparr>, world0)"
  using malformed_header_like_absent
     [of "''Basic abc''" test_libs "\<lparr>jwtSecret = ''secret''\<rparr>" world0
         "\<lparr>Authorization = None, ctx_user_id = None, ctx_role = None\<rparr>"]
  by simp

section \<open>Properties of the base64 encoding\<close>

lemma of_char_char_of_small: "n < 256 \<Longrightarrow> of_char (char_of n) = (n::nat)"
  by simp

lemma dec6_enc6: "k < 64 \<Longrightarrow> dec6 (enc6 k) = Some k"
  by (auto simp: dec6_def enc6_def Let_def)

lemma enc6_plain: "k < 64 \<Longrightarrow> \<not> is_newline (enc6 k) \<and> enc6 k \<noteq> CHR ''.''"
  by (auto simp: enc6_def is_newline_def char_of_eq_iff take_bit_eq_mod)

lemma hi_lo_16: "(b::nat) < 16 \<Longrightarrow> (a * 16 + b) div 16 = a \<and> (a * 16 + b) mod 16 = b"
  by simp

lemma hi_lo_4: "(b::nat) < 4 \<Longrightarrow> (a * 4 + b) div 4 = a \<and> (a * 4 + b) mod 4 = b"
  by simp

lemma byte_parts:
  fixes y :: nat
  assumes "y < 256"
  shows "y div 16 < 16" "y div 64 < 4" "y div 4 < 64"
  using assms by simp_all

lemma sextets_bytes:
  fixes x y z :: nat
  assumes "x < 256" "y < 256" "z < 256"
  shows "x div 4 * 4 + ((x mod 4) * 16 + y div 16) div 16 = x"
    and "(((x mod 4) * 16 + y div 16) mod 16) * 16 + ((y mod 16) * 4 + z div 64) div 4 = y"
    and "(((y mod 16) * 4 + z div 64) mod 4) * 64 + z mod 64 = z"
  using assms byte_parts [of y] byte_parts [of z]
  by (simp_all add: hi_lo_16 hi_lo_4)

lemma sextets_bounds:
  fixes x y z :: nat
  assumes "x < 256" "y < 256" "z < 256"
  shows "x div 4 < 64" and "(x mod 4) * 16 + y div 16 < 64" and "(y mod 16) * 4 + z div 64 < 64"
    and "z mod 64 < 64" and "(x mod 4) * 16 < 64" and "(y mod 16) * 4 < 64"
proof -
  have "x mod 4 < 4" "y mod 16 < 16" by simp_all
  then have "x mod 4 \<le> 3" "y mod 16 \<le> 15" by linarith+
  moreover have "y div 16 \<le> 15" "z div 64 \<le> 3"
    using byte_parts [of y] byte_parts [of z] assms by linarith+
  ultimately show "(x mod 4) * 16 + y div 16 < 64" "(y mod 16) * 4 + z div 64 < 64"
    "(x mod 4) * 16 < 64" "(y mod 16) * 4 < 64" by linarith+
  show "x div 4 < 64" "z mod 64 < 64" using assms by simp_all
qed


lemma decode_groups_encode:
  "decode_groups (map (\<lambda>c. the (dec6 c)) (EncodeToString bs)) = Some bs"
proof (induction bs rule: EncodeToString.induct)
  case (1 a b c rest)
  have b: "of_char a < (256::nat)" "of_char b < (256::nat)" "of_char c < (256::nat)"
    by simp_all
  show ?case
    using 1 sextets_bytes [OF b] sextets_bounds [OF b]
    by (simp add: Let_def dec6_enc6)
next
  case (2 a b)
  have b: "of_char a < (256::nat)" "of_char b < (256::nat)" "(0::nat) < 256"
    by simp_all
  show ?case
    using sextets_bytes [OF b] sextets_bounds [OF b]
    by (simp add: Let_def dec6_enc6)
next
  case (3 a)
  have b: "of_char a < (256::nat)" "(0::nat) < 256" "(0::nat) < 256"
    by simp_all
  show ?case
    using sextets_bytes [OF b] sextets_bounds [OF b]
    by (simp add: Let_def dec6_enc6)
next
  case 4
  show ?case by simp
qed

lemma EncodeToString_alphabet:
  "c \<in> set (EncodeToString bs) \<Longrightarrow> dec6 c \<noteq> None \<and> \<not> is_newline c \<and> c \<noteq> CHR ''.''"
proof (induction bs arbitrary: c rule: EncodeToString.induct)
  case (1 a b c' rest)
  have b: "of_char a < (256::nat)" "of_char b < (256::nat)" "of_char c' < (256::nat)"
    by simp_all
  show ?case
    using 1 sextets_bounds [OF b] by (auto simp: Let_def dec6_enc6 enc6_plain)
next
  case (2 a b)
  have b: "of_char a < (256::nat)" "of_char b < (256::nat)" "(0::nat) < 256"
    by simp_all
  show ?case
    using 2 sextets_bounds [OF b] by (auto simp: Let_def dec6_enc6 enc6_plain)
next
  case (3 a)
  have b: "of_char a < (256::nat)" "(0::nat) < 256" "(0::nat) < 256"
    by simp_all
  show ?case
    using 3 sextets_bounds [OF b] by (auto simp: Let_def dec6_enc6 enc6_plain)
next
  case 4
  then show ?case by simp
qed

lemma DecodeString_EncodeToString: "DecodeString (EncodeToString bs) = Some bs"
proof -
  have "filter (\<lambda>c. \<not> is_newline c) (EncodeToString bs) = EncodeToString bs"
    using EncodeToString_alphabet by (simp add: filter_id_conv)
  moreover have "list_all (\<lambda>c. dec6 c \<noteq> None) (EncodeToString bs)"
    using EncodeToString_alphabet by (simp add: list_all_iff)
  ultimately show ?thesis
    by (simp add: DecodeString_def decode_groups_encode)
qed

lemma EncodeToString_no_dot: "CHR ''.'' \<notin> set (EncodeToString bs)"
  using EncodeToString_alphabet by blast

section \<open>Properties of \<open>Split\<close>\<close>

lemma Split_nonempty: "Split s sep \<noteq> []"
  by (induction s) (auto split: list.splits)

lemma Split_no_sep: "sep \<notin> set s \<Longrightarrow> Split s sep = [s]"
  by (induction s) auto

lemma Split_append: "sep \<notin> set a \<Longrightarrow> Split (a @ sep # b) sep = a # Split b sep"
  by (induction a) (auto simp: Split_nonempty split: list.splits)

lemma Split_three:
  "sep \<notin> set a \<Longrightarrow> sep \<notin> set b \<Longrightarrow> sep \<notin> set c \<Longrightarrow>
   Split (a @ sep # b @ sep # c) sep = [a, b, c]"
  by (simp add: Split_append Split_no_sep)

section \<open>Properties of tokens\<close>

lemma NewNumericDate_whole: "whole_seconds (Some (NewNumericDate t))"
  by (simp add: whole_seconds_def NewNumericDate_def Truncate_def Second_def)

lemma NewNumericDate_le: "NewNumericDate t \<le> t"
  by (simp add: NewNumericDate_def Truncate_def Second_def)

lemma HS256_hmac: "''HS256'' \<in> set hmac_methods"
  by (simp add: hmac_methods_def)

lemma SignedString_eq:
  assumes "Marshal_header L \<lparr>header_typ = Some ''JWT'', header_alg = Some ''HS256''\<rparr> = Inr h"
    and "Marshal_claims L c = Inr j"
  shows "SignedString L c key = Inr (signed_token L h j key)"
  using assms by (simp add: SignedString_def signed_token_def Let_def)

lemma Split_signed_token:
  "Split (signed_token L h j key) (CHR ''.'')
     = [EncodeToString h, EncodeToString j,
        EncodeToString (hmac L ''HS256'' key (EncodeToString h @ ''.'' @ EncodeToString j))]"
  unfolding signed_token_def
  using Split_three [of "CHR ''.''" "EncodeToString h" "EncodeToString j"
      "EncodeToString (hmac L ''HS256'' key (EncodeToString h @ ''.'' @ EncodeToString j))"]
  by (simp add: EncodeToString_no_dot)

lemma ParseUnverified_signed_token:
  assumes "Unmarshal_header L h = Inr hdr" and "header_alg hdr = Some ''HS256''"
    and "Unmarshal_claims L j = Inr c'"
  shows "ParseUnverified L (signed_token L h j key)
     = Inr (c', ''HS256'', Split (signed_token L h j key) (CHR ''.''))"
  using assms
  by (simp add: ParseUnverified_def Split_signed_token DecodeString_EncodeToString Let_def
      HS256_hmac)

lemma ParseWithClaims_signed_token:
  assumes "Unmarshal_header L h = Inr hdr" and "header_alg hdr = Some ''HS256''"
    and "Unmarshal_claims L j = Inr c'"
  shows "ParseWithClaims L w (signed_token L h j (jwtSecret s)) (keyFunc s)
     = (case Validate (clock w (reads w)) c' of
          [] \<Rightarrow> (Inr (c', True), w\<lparr>reads := Suc (reads w)\<rparr>)
        | e # es \<Rightarrow> (Inl (newError [] ErrTokenInvalidClaims [Joined (e # es)]),
                     w\<lparr>reads := Suc (reads w)\<rparr>))"
  using assms
  by (simp add: ParseWithClaims_def ParseUnverified_signed_token Split_signed_token
      DecodeString_EncodeToString keyFunc_def HS256_hmac Verify_def Now_def
      split: list.split)

lemma Validate_window:
  assumes "ExpiresAt c = Some exp" and "NotBefore c = Some nbf"
  shows "Validate now c = [] \<longleftrightarrow> nbf \<le> now \<and> now < exp"
  using assms by (auto simp: Validate_def)


lemma GenerateToken_eq:
  "GenerateToken L s w user =
     (case SignedString L (issued_claims w user) (jwtSecret s) of
        Inl e \<Rightarrow> (Inl (Wrap ''failed to sign token'' e), w\<lparr>reads := reads w + 3\<rparr>)
      | Inr t \<Rightarrow> (Inr t, w\<lparr>reads := reads w + 3\<rparr>))"
  by (simp add: GenerateToken_def Now_def issued_claims_def Let_def numeral_3_eq_3
      split: sum.split)

lemma issued_claims_plain: "valid_role (Role user) \<Longrightarrow> plain_claims (issued_claims w user)"
  by (simp add: plain_claims_def issued_claims_def NewNumericDate_whole)

text \<open>
  Under the assumptions on the JSON encoding, \<open>GenerateToken\<close> succeeds for a user with one
  of the three roles, and the token decodes to claims with the issued id, role and instants.
\<close>

lemma GenerateToken_signed:
  assumes "json_laws L" and "valid_role (Role user)"
  shows "\<exists>h j hdr c'.
     GenerateToken L s w user = (Inr (signed_token L h j (jwtSecret s)), w\<lparr>reads := reads w + 3\<rparr>)
     \<and> Unmarshal_header L h = Inr hdr \<and> header_alg hdr = Some ''HS256''
     \<and> Unmarshal_claims L j = Inr c'
     \<and> UserID c' = ID user \<and> claims_Role c' = Role user
     \<and> ExpiresAt c' = Some (NewNumericDate (clock w (reads w) + 24 * Hour))
     \<and> NotBefore c' = Some (NewNumericDate (clock w (reads w + 2)))
     \<and> IssuedAt c' = Some (NewNumericDate (clock w (reads w + 1)))"
proof -
  from assms(1) obtain h hdr where h:
    "Marshal_header L \<lparr>header_typ = Some ''JWT'', header_alg = Some ''HS256''\<rparr> = Inr h"
    "Unmarshal_header L h = Inr hdr" "header_alg hdr = Some ''HS256''"
    by (auto simp: json_laws_def header_round_trip_def split: sum.splits)
  from assms have "claims_round_trip L (issued_claims w user)"
    by (simp add: json_laws_def issued_claims_plain)
  then obtain j c' where j: "Marshal_claims L (issued_claims w user) = Inr j"
    "Unmarshal_claims L j = Inr c'"
    "UserID c' = UserID (issued_claims w user)" "claims_Role c' = claims_Role (issued_claims w user)"
    "ExpiresAt c' = ExpiresAt (issued_claims w user)" "NotBefore c' = NotBefore (issued_claims w user)"
    "IssuedAt c' = IssuedAt (issued_claims w user)"
    by (auto simp: claims_round_trip_def split: sum.splits)
  have "GenerateToken L s w user
      = (Inr (signed_token L h j (jwtSecret s)), w\<lparr>reads := reads w + 3\<rparr>)"
    by (simp add: GenerateToken_eq SignedString_eq [OF h(1) j(1)])
  with h j show ?thesis
    by (auto simp: issued_claims_def)
qed

lemma ValidateToken_signed_token:
  assumes "Unmarshal_header L h = Inr hdr" and "header_alg hdr = Some ''HS256''"
    and "Unmarshal_claims L j = Inr c'"
    and "ExpiresAt c' = Some exp" and "NotBefore c' = Some nbf"
  shows "nbf \<le> clock w (reads w) \<and> clock w (reads w) < exp \<Longrightarrow>
       ValidateToken L s w (signed_token L h j (jwtSecret s))
         = (Inr (UserID c', claims_Role c'), w\<lparr>reads := Suc (reads w)\<rparr>)"
    and "\<not> (nbf \<le> clock w (reads w) \<and> clock w (reads w) < exp) \<Longrightarrow>
       \<exists>e. ValidateToken L s w (signed_token L h j (jwtSecret s))
         = (Inl (Wrap ''failed to parse token'' e), w\<lparr>reads := Suc (reads w)\<rparr>)"
proof -
  note p = ParseWithClaims_signed_token [OF assms(1-3), of w s]
  note v = Validate_window [OF assms(4,5), of "clock w (reads w)"]
  show "nbf \<le> clock w (reads w) \<and> clock w (reads w) < exp \<Longrightarrow>
       ValidateToken L s w (signed_token L h j (jwtSecret s))
         = (Inr (UserID c', claims_Role c'), w\<lparr>reads := Suc (reads w)\<rparr>)"
    using p v by (simp add: ValidateToken_def)
  show "\<not> (nbf \<le> clock w (reads w) \<and> clock w (reads w) < exp) \<Longrightarrow>
       \<exists>e. ValidateToken L s w (signed_token L h j (jwtSecret s))
         = (Inl (Wrap ''failed to parse token'' e), w\<lparr>reads := Suc (reads w)\<rparr>)"
    using p v by (cases "Validate (clock w (reads w)) c'") (simp_all add: ValidateToken_def)
qed

section \<open>The instance of the libraries meets the assumptions\<close>

lemma semicolon_not_digit: "\<not> is_digit (CHR '';'')"
  by (simp add: is_digit_def)

lemma get_nat_put_nat: "get_nat (put_nat n @ r) = Some (n, r)"
proof -
  have all: "\<forall>c \<in> set (fmt_uint n). is_digit c" by (simp add: fmt_uint_digits)
  have t: "takeWhile is_digit (fmt_uint n @ CHR '';'' # r) = fmt_uint n"
    using all by (simp add: takeWhile_tail semicolon_not_digit)
  have d: "dropWhile is_digit (fmt_uint n @ CHR '';'' # r) = CHR '';'' # r"
    using all by (simp add: dropWhile_append3 semicolon_not_digit)
  show ?thesis
    by (simp add: get_nat_def put_nat_def t d Let_def fmt_uint_nonempty digits_val_fmt_uint)
qed

lemma get_int_put_int: "get_int (put_int n @ r) = Some (n, r)"
  by (simp add: get_int_def put_int_def get_nat_put_nat)

lemma get_str_put_str: "get_str (put_str s @ r) = Some (s, r)"
  by (simp add: get_str_def put_str_def get_nat_put_nat)

lemma get_time_put_time: "get_time (put_time t @ r) = Some (t, r)"
  by (cases t) (simp_all add: get_time_def put_time_def get_int_put_int)

lemma get_opt_str_put_opt_str: "get_opt_str (put_opt_str t @ r) = Some (t, r)"
  by (cases t) (simp_all add: get_opt_str_def put_opt_str_def get_str_put_str)

lemma test_Unmarshal_Marshal_claims:
  "test_Marshal_claims c = Inr j \<Longrightarrow> test_Unmarshal_claims j = Inr c"
  using get_time_put_time [of "IssuedAt c" "[]"]
  by (auto simp: test_Marshal_claims_def test_Unmarshal_claims_def get_int_put_int
      get_str_put_str get_time_put_time)

lemma test_Unmarshal_Marshal_header:
  "test_Marshal_header h = Inr j \<Longrightarrow> test_Unmarshal_header j = Inr h"
  using get_opt_str_put_opt_str [of "header_alg h" "[]"]
  by (auto simp: test_Marshal_header_def test_Unmarshal_header_def get_opt_str_put_opt_str)

lemma json_laws_test_libs: "json_laws test_libs"
proof -
  have "header_round_trip test_libs"
    using test_Unmarshal_Marshal_header
      [of "\<lparr>header_typ = Some ''JWT'', header_alg = Some ''HS256''\<rparr>"]
    by (simp add: header_round_trip_def test_libs_def test_Marshal_header_def)
  moreover have "claims_round_trip test_libs c" for c
    using test_Unmarshal_Marshal_claims [of c]
    by (simp add: claims_round_trip_def test_libs_def test_Marshal_claims_def)
  ultimately show ?thesis by (simp add: json_laws_def)
qed

lemma bcrypt_law_test_libs: "bcrypt_law test_libs"
  by (auto simp: bcrypt_law_def test_libs_def)

section \<open>Issued tokens and their validity window\<close>

text \<open>
  C5, as stated, fails: the issue instant that a token carries is not the reading of the
  clock. At the clock readings 1700000000.250000000 s, 1700000000.250001000 s and
  1700000000.250002000 s the token carries the issue and not-before instant 1700000000 s
  and the expiry 1700086400 s.
\<close>

theorem issued_at_counterexample:
  "clock world0 (reads world0) = 1700000000250000000
   \<and> clock world0 (reads world0 + 1) = 1700000000250001000
   \<and> clock world0 (reads world0 + 2) = 1700000000250002000
   \<and> IssuedAt (fst (projr (ParseUnverified test_libs
        (projr (fst (GenerateToken test_libs \<lparr>jwtSecret = ''secret''\<rparr> world0
           (User_zero\<lparr>ID := 1, Role := ''user''\<rparr>)))))))
       = Some 1700000000000000000
   \<and> NotBefore (fst (projr (ParseUnverified test_libs
        (projr (fst (GenerateToken test_libs \<lparr>jwtSecret = ''secret''\<rparr> world0
           (User_zero\<lparr>ID := 1, Role := ''user''\<rparr>)))))))
       = Some 1700000000000000000
   \<and> ExpiresAt (fst (projr (ParseUnverified test_libs
        (projr (fst (GenerateToken test_libs \<lparr>jwtSecret = ''secret''\<rparr> world0
           (User_zero\<lparr>ID := 1, Role := ''user''\<rparr>)))))))
       = Some 1700086400000000000"
proof -
  let ?u = "User_zero\<lparr>ID := 1, Role := ''user''\<rparr>"
  have role: "valid_role (Role ?u)" by (simp add: valid_role_def)
  from GenerateToken_signed [OF json_laws_test_libs role, of "\<lparr>jwtSecret = ''secret''\<rparr>" world0]
  obtain h j hdr c' where g:
    "GenerateToken test_libs \<lparr>jwtSecret = ''secret''\<rparr> world0 ?u
       = (Inr (signed_token test_libs h j ''secret''), world0\<lparr>reads := reads world0 + 3\<rparr>)"
    "Unmarshal_header test_libs h = Inr hdr" "header_alg hdr = Some ''HS256''"
    "Unmarshal_claims test_libs j = Inr c'"
    "ExpiresAt c' = Some (NewNumericDate (clock world0 (reads world0) + 24 * Hour))"
    "NotBefore c' = Some (NewNumericDate (clock world0 (reads world0 + 2)))"
    "IssuedAt c' = Some (NewNumericDate (clock world0 (reads world0 + 1)))"
    by auto
  have p: "ParseUnverified test_libs (signed_token test_libs h j ''secret'')
      = Inr (c', ''HS256'', Split (signed_token test_libs h j ''secret'') (CHR ''.''))"
    using g(2-4) by (rule ParseUnverified_signed_token)
  have t: "NewNumericDate 1700000000250001000 = 1700000000000000000"
    "NewNumericDate 1700000000250002000 = 1700000000000000000"
    "NewNumericDate (1700000000250000000 + 24 * Hour) = 1700086400000000000"
    by (simp_all add: NewNumericDate_def Truncate_def Second_def Hour_def)
  have c: "clock world0 (reads world0) = 1700000000250000000"
    "clock world0 (reads world0 + 1) = 1700000000250001000"
    "clock world0 (reads world0 + 2) = 1700000000250002000"
    by (simp_all add: world0_def Second_def)
  show ?thesis
    unfolding g(1) fst_conv sum.sel p g(5-7) c t by simp
qed

text \<open>
  C5, amended. A token issued by \<open>GenerateToken\<close> carries the readings of the clock
  truncated to whole seconds: the expiry is the first reading plus 24 hours, the issue
  instant the second reading, the not-before instant the third, each truncated.
  \<open>ValidateToken\<close> accepts the token at every instant from the not-before instant on and
  strictly before the expiry, and rejects it at every instant at or after the expiry and
  at every instant before the not-before instant.
\<close>

theorem issued_token_window:
  assumes "json_laws L" and "valid_role (Role user)"
    and "GenerateToken L s w user = (Inr tok, w')"
  shows "\<exists>c parts. ParseUnverified L tok = Inr (c, ''HS256'', parts)
     \<and> ExpiresAt c = Some (NewNumericDate (clock w (reads w) + 24 * Hour))
     \<and> IssuedAt c = Some (NewNumericDate (clock w (reads w + 1)))
     \<and> NotBefore c = Some (NewNumericDate (clock w (reads w + 2)))
     \<and> (\<forall>v. (NewNumericDate (clock w (reads w + 2)) \<le> clock v (reads v)
              \<and> clock v (reads v) < NewNumericDate (clock w (reads w) + 24 * Hour)
              \<longrightarrow> fst (ValidateToken L s v tok) = Inr (ID user, Role user))
          \<and> (NewNumericDate (clock w (reads w) + 24 * Hour) \<le> clock v (reads v)
              \<longrightarrow> isl (fst (ValidateToken L s v tok)))
          \<and> (clock v (reads v) < NewNumericDate (clock w (reads w + 2))
              \<longrightarrow> isl (fst (ValidateToken L s v tok))))"
proof -
  from GenerateToken_signed [OF assms(1,2), of s w]
  obtain h j hdr c' where g:
    "GenerateToken L s w user
       = (Inr (signed_token L h j (jwtSecret s)), w\<lparr>reads := reads w + 3\<rparr>)"
    "Unmarshal_header L h = Inr hdr" "header_alg hdr = Some ''HS256''"
    "Unmarshal_claims L j = Inr c'" "UserID c' = ID user" "claims_Role c' = Role user"
    "ExpiresAt c' = Some (NewNumericDate (clock w (reads w) + 24 * Hour))"
    "NotBefore c' = Some (NewNumericDate (clock w (reads w + 2)))"
    "IssuedAt c' = Some (NewNumericDate (clock w (reads w + 1)))"
    by auto
  from g(1) assms(3) have tok: "tok = signed_token L h j (jwtSecret s)" by simp
  have p: "ParseUnverified L tok = Inr (c', ''HS256'', Split tok (CHR ''.''))"
    unfolding tok using g(2-4) by (rule ParseUnverified_signed_token)
  note v = ValidateToken_signed_token [OF g(2-4) g(7,8), of _ s, folded tok]
  have "fst (ValidateToken L s v tok) = Inr (ID user, Role user)"
    if "NewNumericDate (clock w (reads w + 2)) \<le> clock v (reads v)
        \<and> clock v (reads v) < NewNumericDate (clock w (reads w) + 24 * Hour)" for v
    using v(1) [OF that] g(5,6) by simp
  moreover have "isl (fst (ValidateToken L s v tok))"
    if "NewNumericDate (clock w (reads w) + 24 * Hour) \<le> clock v (reads v)" for v
    using v(2) [of v] that by auto
  moreover have "isl (fst (ValidateToken L s v tok))"
    if "clock v (reads v) < NewNumericDate (clock w (reads w + 2))" for v
    using v(2) [of v] that by auto
  ultimately show ?thesis using p g(7-9) by blast
qed


theorem issued_token_window_witness:
  "fst (ValidateToken test_libs \<lparr>jwtSecret = ''secret''\<rparr> (world0\<lparr>reads := 3\<rparr>)
         (projr (fst (GenerateToken test_libs \<lparr>jwtSecret = ''secret''\<rparr> world0
            (User_zero\<lparr>ID := 1, Role := ''user''\<rparr>)))))
     = Inr (1, ''user'')"
proof -
  let ?s = "\<lparr>jwtSecret = ''secret''\<rparr>"
  let ?u = "User_zero\<lparr>ID := 1, Role := ''user''\<rparr>"
  let ?G = "GenerateToken test_libs ?s world0 ?u"
  have role: "valid_role (Role ?u)" by (simp add: valid_role_def)
  from GenerateToken_signed [OF json_laws_test_libs role, of ?s world0]
  obtain t where "?G = (Inr t, world0\<lparr>reads := reads world0 + 3\<rparr>)" by blast
  then have g: "?G = (Inr (projr (fst ?G)), snd ?G)" by simp
  have window: "NewNumericDate (clock world0 (reads world0 + 2))
        \<le> clock (world0\<lparr>reads := 3\<rparr>) (reads (world0\<lparr>reads := 3\<rparr>))
      \<and> clock (world0\<lparr>reads := 3\<rparr>) (reads (world0\<lparr>reads := 3\<rparr>))
        < NewNumericDate (clock world0 (reads world0) + 24 * Hour)"
    by (simp add: world0_def NewNumericDate_def Truncate_def Second_def Hour_def)
  from issued_token_window [OF json_laws_test_libs role g] window
  show ?thesis by (auto simp: User_zero_def)
qed

section \<open>Login failures\<close>

text \<open>
  C1, as stated, fails: the login with the email of an account that has no password hash
  returns another error than the login with an unknown email.
\<close>

theorem login_errors_counterexample:
  "fst (Login test_libs \<lparr>jwtSecret = ''secret''\<rparr>
         (world0\<lparr>users := [User_zero\<lparr>ID := 1, Email := Some ''g@x.com'',
            Provider := Some ''google'', ExternalID := Some ''g-1'', Role := ''user''\<rparr>]\<rparr>)
         \<lparr>login_Email = ''g@x.com'', login_Password = ''secret1''\<rparr>)
     = Inl (New ''user must login via OAuth'')
   \<and> fst (Login test_libs \<lparr>jwtSecret = ''secret''\<rparr>
         (world0\<lparr>users := [User_zero\<lparr>ID := 1, Email := Some ''g@x.com'',
            Provider := Some ''google'', ExternalID := Some ''g-1'', Role := ''user''\<rparr>]\<rparr>)
         \<lparr>login_Email = ''nobody@x.com'', login_Password = ''secret1''\<rparr>)
     = Inl (New ''invalid email or password'')"
  by (simp add: Login_def GetUserByEmail_def driver_call_def world0_def User_zero_def)

text \<open>
  C1, amended. A login fails with the error "invalid email or password" when the email
  resolves to no account and when the stored hash does not match the password; it fails
  with the different error "user must login via OAuth" when the account has no password
  hash. (A failure of the driver on the lookup is reported as an unknown email.)
\<close>

theorem login_failure_errors:
  "(\<not> faults w (calls w) \<and> find (\<lambda>u. Email u = Some (login_Email req)) (users w) = None
      \<longrightarrow> fst (Login L s w req) = Inl (New ''invalid email or password''))
   \<and> (faults w (calls w) \<longrightarrow> fst (Login L s w req) = Inl (New ''invalid email or password''))
   \<and> (\<not> faults w (calls w) \<and> find (\<lambda>u. Email u = Some (login_Email req)) (users w) = Some u
        \<and> PasswordHash u = Some h \<and> CompareHashAndPassword L h (login_Password req) = Some e
      \<longrightarrow> fst (Login L s w req) = Inl (New ''invalid email or password''))
   \<and> (\<not> faults w (calls w) \<and> find (\<lambda>u. Email u = Some (login_Email req)) (users w) = Some u
        \<and> PasswordHash u = None
      \<longrightarrow> fst (Login L s w req) = Inl (New ''user must login via OAuth''))"
  by (simp add: Login_def GetUserByEmail_def driver_call_def)

theorem login_failure_errors_witness:
  "fst (Login test_libs \<lparr>jwtSecret = ''secret''\<rparr>
         (world0\<lparr>users := [User_zero\<lparr>ID := 1, Email := Some ''a@x.com'',
            PasswordHash := Some ''salt$secret1'', Provider := Some ''local'', Role := ''user''\<rparr>,
          User_zero\<lparr>ID := 2, Email := Some ''g@x.com'',
            Provider := Some ''google'', ExternalID := Some ''g-1'', Role := ''user''\<rparr>]\<rparr>)
         \<lparr>login_Email = ''nobody@x.com'', login_Password = ''secret1''\<rparr>)
     = Inl (New ''invalid email or password'')
   \<and> fst (Login test_libs \<lparr>jwtSecret = ''secret''\<rparr>
         (world0\<lparr>users := [User_zero\<lparr>ID := 1, Email := Some ''a@x.com'',
            PasswordHash := Some ''salt$secret1'', Provider := Some ''local'', Role := ''user''\<rparr>,
          User_zero\<lparr>ID := 2, Email := Some ''g@x.com'',
            Provider := Some ''google'', ExternalID := Some ''g-1'', Role := ''user''\<rparr>]\<rparr>)
         \<lparr>login_Email = ''a@x.com'', login_Password = ''secret2''\<rparr>)
     = Inl (New ''invalid email or password'')
   \<and> fst (Login test_libs \<lparr>jwtSecret = ''secret''\<rparr>
         (world0\<lparr>users := [User_zero\<lparr>ID := 1, Email := Some ''a@x.com'',
            PasswordHash := Some ''salt$secret1'', Provider := Some ''local'', Role := ''user''\<rparr>,
          User_zero\<lparr>ID := 2, Email := Some ''g@x.com'',
            Provider := Some ''google'', ExternalID := Some ''g-1'', Role := ''user''\<rparr>]\<rparr>)
         \<lparr>login_Email = ''g@x.com'', login_Password = ''secret1''\<rparr>)
     = Inl (New ''user must login via OAuth'')"
proof -
  let ?a = "User_zero\<lparr>ID := 1, Email := Some ''a@x.com'',
            PasswordHash := Some ''salt$secret1'', Provider := Some ''local'', Role := ''user''\<rparr>"
  let ?g = "User_zero\<lparr>ID := 2, Email := Some ''g@x.com'',
            Provider := Some ''google'', ExternalID := Some ''g-1'', Role := ''user''\<rparr>"
  let ?w = "world0\<lparr>users := [?a, ?g]\<rparr>"
  let ?s = "\<lparr>jwtSecret = ''secret''\<rparr>"
  let ?e = "New ''crypto/bcrypt: hashedPassword is not the hash of the given password''"
  have f: "\<not> faults ?w (calls ?w)" by (simp add: world0_def)
  have l1: "find (\<lambda>u. Email u = Some ''nobody@x.com'') (users ?w) = None"
    by (simp add: User_zero_def)
  have l2: "find (\<lambda>u. Email u = Some ''a@x.com'') (users ?w) = Some ?a"
    "PasswordHash ?a = Some ''salt$secret1''"
    "CompareHashAndPassword test_libs ''salt$secret1'' ''secret2'' = Some ?e"
    by (simp_all add: User_zero_def test_libs_def)
  have l3: "find (\<lambda>u. Email u = Some ''g@x.com'') (users ?w) = Some ?g" "PasswordHash ?g = None"
    by (simp_all add: User_zero_def)
  note t1 = login_failure_errors
    [of ?w "\<lparr>login_Email = ''nobody@x.com'', login_Password = ''secret1''\<rparr>" test_libs ?s]
  note t2 = login_failure_errors
    [of ?w "\<lparr>login_Email = ''a@x.com'', login_Password = ''secret2''\<rparr>" test_libs ?s
        ?a "''salt$secret1''" ?e]
  note t3 = login_failure_errors
    [of ?w "\<lparr>login_Email = ''g@x.com'', login_Password = ''secret1''\<rparr>" test_libs ?s ?g]
  from t1 f l1 have c1: "fst (Login test_libs ?s ?w
      \<lparr>login_Email = ''nobody@x.com'', login_Password = ''secret1''\<rparr>)
     = Inl (New ''invalid email or password'')" by simp
  from t2 f l2 have c2: "fst (Login test_libs ?s ?w
      \<lparr>login_Email = ''a@x.com'', login_Password = ''secret2''\<rparr>)
     = Inl (New ''invalid email or password'')" by simp
  from t3 f l3 have c3: "fst (Login test_libs ?s ?w
      \<lparr>login_Email = ''g@x.com'', login_Password = ''secret1''\<rparr>)
     = Inl (New ''user must login via OAuth'')" by simp
  from c1 c2 c3 show ?thesis by (intro conjI)
qed

section \<open>Reconciliation of an external identity\<close>










text \<open>Rows are compared field by field through the lists of their fields.\<close>

lemma map_eq_field:
  assumes "map g rows' = map g rows" and "map ID rows' = map ID rows" and "v \<in> set rows'"
  shows "\<exists>u \<in> set rows. ID u = ID v \<and> g u = g v"
proof -
  from assms(3) obtain k where k: "k < length rows'" "rows' ! k = v"
    by (auto simp: in_set_conv_nth)
  have len: "length rows = length rows'"
    using assms(1) by (metis length_map)
  have "g (rows ! k) = g v" "ID (rows ! k) = ID v"
    using assms(1,2) k len by (metis nth_map)+
  with k len show ?thesis by (metis nth_mem)
qed






end
